theory Spec2Isabelle
  imports Complex_Main
begin

section \<open>Vertex Color Utils: channel masks, swizzling and the colour sampler\<close>

text \<open>
  A shallow embedding of the add-on's \<^verbatim>\<open>__init__.py\<close>. Python strings are
  \<^typ>\<open>string\<close>, a Python set of one-character strings is a \<^typ>\<open>char set\<close>
  (and a duplicate-free \<^typ>\<open>char list\<close> where the code iterates over it), colour
  components are \<^typ>\<open>real\<close>, every \<^verbatim>\<open>raise\<close> is a value of the sum type.
\<close>

subsection \<open>Python string primitives\<close>

text \<open>\<^verbatim>\<open>s.endswith(suf)\<close>.\<close>

definition endswith :: "string \<Rightarrow> string \<Rightarrow> bool" where
  "endswith s suf = (length suf \<le> length s \<and> drop (length s - length suf) s = suf)"

text \<open>\<^verbatim>\<open>s[:-k]\<close> and \<^verbatim>\<open>s[-k:]\<close> for a positive literal \<open>k\<close>: the slice bounds are
  clipped to the string, which is what the truncating subtraction on \<^typ>\<open>nat\<close> does.\<close>

definition slice_upto_neg :: "string \<Rightarrow> nat \<Rightarrow> string" where
  "slice_upto_neg s k = take (length s - k) s"

definition slice_from_neg :: "string \<Rightarrow> nat \<Rightarrow> string" where
  "slice_from_neg s k = drop (length s - k) s"

subsection \<open>Channel sets and channel codes\<close>

definition make_channel_str :: "char set \<Rightarrow> string" where
  "make_channel_str channels =
     (if CHR ''A'' \<in> channels then ''A''
      else
        (let str = (if CHR ''R'' \<in> channels then ''R'' else '''');
             str = str @ (if CHR ''G'' \<in> channels then ''G'' else '''');
             str = str @ (if CHR ''B'' \<in> channels then ''B'' else '''')
         in str))"

definition make_channel_set :: "string \<Rightarrow> char set" where
  "make_channel_set channel_str =
     (let channels = {};
          channels = (if CHR ''R'' \<in> set channel_str then insert (CHR ''R'') channels else channels);
          channels = (if CHR ''G'' \<in> set channel_str then insert (CHR ''G'') channels else channels);
          channels = (if CHR ''B'' \<in> set channel_str then insert (CHR ''B'') channels else channels);
          channels = (if CHR ''A'' \<in> set channel_str then insert (CHR ''A'') channels else channels)
      in channels)"

subsection \<open>Mask names\<close>

definition attr_name_is_mask :: "string \<Rightarrow> bool" where
  "attr_name_is_mask name =
     (endswith name ''__R'' \<or>
      endswith name ''__G'' \<or>
      endswith name ''__B'' \<or>
      endswith name ''__A'' \<or>
      endswith name ''__RG'' \<or>
      endswith name ''__RB'' \<or>
      endswith name ''__GB'' \<or>
      endswith name ''__RGB'')"

definition get_mask_name_parts :: "string \<Rightarrow> string \<times> string" where
  "get_mask_name_parts name =
     (if endswith name ''__R'' \<or>
         endswith name ''__G'' \<or>
         endswith name ''__B'' \<or>
         endswith name ''__A''
      then (slice_upto_neg name 3, slice_from_neg name 1)
      else if endswith name ''__RG'' \<or>
              endswith name ''__RB'' \<or>
              endswith name ''__GB''
      then (slice_upto_neg name 4, slice_from_neg name 2)
      else if endswith name ''__RGB''
      then (slice_upto_neg name 5, slice_from_neg name 3)
      else (name, ''''))"

text \<open>The eight channel codes of a mask layer.\<close>

definition valid_codes :: "string list" where
  "valid_codes = [''R'', ''G'', ''B'', ''A'', ''RG'', ''RB'', ''GB'', ''RGB'']"

subsection \<open>Colour layers\<close>

text \<open>One element of a layer: \<^verbatim>\<open>data[i].color\<close>, the four components indexed 0 to 3.\<close>

record color =
  red :: real
  green :: real
  blue :: real
  alpha :: real

text \<open>A colour attribute of the host: its name, its storage type, its domain
  (\<^verbatim>\<open>'POINT'\<close> or \<^verbatim>\<open>'CORNER'\<close>) and its per-element array.\<close>

record color_attr =
  name :: string
  data_type :: string
  domain :: string
  data :: "color list"

text \<open>\<^verbatim>\<open>n in color_attrs\<close> and \<^verbatim>\<open>color_attrs[n]\<close>: the collection is searched by name,
  front to back. The object found is mutated in place by the copying code, which the model
  writes as replacing the \<^verbatim>\<open>data\<close> of that first match; \<^verbatim>\<open>color_attrs.remove(a)\<close>
  drops it.\<close>

definition attrs_contains :: "color_attr list \<Rightarrow> string \<Rightarrow> bool" where
  "attrs_contains color_attrs n = (find (\<lambda>a. name a = n) color_attrs \<noteq> None)"

definition attrs_get :: "color_attr list \<Rightarrow> string \<Rightarrow> color_attr option" where
  "attrs_get color_attrs n = find (\<lambda>a. name a = n) color_attrs"

fun attrs_set_data :: "color_attr list \<Rightarrow> string \<Rightarrow> color list \<Rightarrow> color_attr list" where
  "attrs_set_data [] n d = []"
| "attrs_set_data (a # rest) n d =
     (if name a = n then a\<lparr>data := d\<rparr> # rest else a # attrs_set_data rest n d)"

fun attrs_remove :: "color_attr list \<Rightarrow> string \<Rightarrow> color_attr list" where
  "attrs_remove [] n = []"
| "attrs_remove (a # rest) n = (if name a = n then rest else a # attrs_remove rest n)"

subsection \<open>Conflict detection\<close>

text \<open>\<^verbatim>\<open>channels\<close> is a Python set; the loop \<^verbatim>\<open>for c in channels\<close> visits it in some
  order, which is the order of the list here.\<close>

fun check_for_conflicting_mask ::
  "color_attr list \<Rightarrow> string \<Rightarrow> char list \<Rightarrow> (char \<times> color_attr) option" where
  "check_for_conflicting_mask [] base_name channels = None"
| "check_for_conflicting_mask (attr # rest) base_name channels =
     (if attr_name_is_mask (name attr) then
        (case get_mask_name_parts (name attr) of (attr_base, attr_channel_str) \<Rightarrow>
           if attr_base = base_name then
             (case find (\<lambda>c. c \<in> set attr_channel_str) channels of
                Some c \<Rightarrow> Some (c, attr)
              | None \<Rightarrow> check_for_conflicting_mask rest base_name channels)
           else check_for_conflicting_mask rest base_name channels)
      else check_for_conflicting_mask rest base_name channels)"

text \<open>The spec's wording of a conflict: layer \<open>a\<close> parses as a mask of \<open>base_name\<close> and
  its code contains the requested channel \<open>c\<close>.\<close>

definition spec_conflict :: "string \<Rightarrow> char list \<Rightarrow> color_attr \<Rightarrow> char \<Rightarrow> bool" where
  "spec_conflict base_name channels a c =
     (attr_name_is_mask (name a) \<and> fst (get_mask_name_parts (name a)) = base_name \<and>
      c \<in> set channels \<and> c \<in> set (snd (get_mask_name_parts (name a))))"

subsection \<open>Exceptions, reports and operator results\<close>

text \<open>The exceptions the code raises itself (\<open>RuntimeError\<close>, \<open>Exception\<close>, with their
  messages) and the ones Python raises for it: an attribute of \<^verbatim>\<open>None\<close>, a missing
  dictionary key, an index out of range.\<close>

datatype exn =
  RuntimeError string
  | Exception string
  | AttributeError
  | KeyError
  | IndexError

datatype report_type = ERROR_INVALID_INPUT | WARNING | INFO

datatype op_status = FINISHED | CANCELLED | RUNNING_MODAL | PASS_THROUGH

subsection \<open>The mesh\<close>

text \<open>\<^verbatim>\<open>mathutils.Vector\<close> of three coordinates; a polygon with the mesh indices of its
  vertices and of its loops; the mesh with its colour layers, the name of the active one,
  the position \<^verbatim>\<open>co\<close> of every vertex, its loops and its polygons.\<close>

type_synonym vec = "real \<times> real \<times> real"

record MeshPolygon =
  vertices :: "nat list"
  loop_indices :: "nat list"

record mesh =
  color_attributes :: "color_attr list"
  active_color_name :: "string option"
  mesh_vertices :: "vec list"
  loops :: "nat list"
  polygons :: "MeshPolygon list"

text \<open>\<^verbatim>\<open>color_attrs.active_color\<close>: the active layer, or \<^verbatim>\<open>None\<close>.\<close>

definition active_color :: "mesh \<Rightarrow> color_attr option" where
  "active_color m =
     (case active_color_name m of
        None \<Rightarrow> None
      | Some n \<Rightarrow> attrs_get (color_attributes m) n)"

subsection \<open>Swizzling\<close>

text \<open>\<^verbatim>\<open>str.upper()\<close> on one character; only the ASCII letters matter to the code, which
  compares the result with \<^verbatim>\<open>'RGBA01'\<close>.\<close>

definition upper_char :: "char \<Rightarrow> char" where
  "upper_char c =
     (if 97 \<le> (of_char c :: nat) \<and> (of_char c :: nat) \<le> 122
      then char_of ((of_char c :: nat) - 32) else c)"

definition upper :: "string \<Rightarrow> string" where
  "upper s = map upper_char s"

text \<open>The dictionary \<^verbatim>\<open>m\<close> of \<^verbatim>\<open>swizzle_channels\<close>, and \<^verbatim>\<open>m[swizzle_str[k]]\<close>.\<close>

definition swizzle_map :: "char \<rightharpoonup> nat" where
  "swizzle_map =
     [CHR ''R'' \<mapsto> 0, CHR ''G'' \<mapsto> 1, CHR ''B'' \<mapsto> 2, CHR ''A'' \<mapsto> 3,
      CHR ''0'' \<mapsto> 4, CHR ''1'' \<mapsto> 5]"

definition swizzle_source :: "string \<Rightarrow> nat \<Rightarrow> exn + nat" where
  "swizzle_source swizzle_str k =
     (if k < length swizzle_str then
        (case swizzle_map (swizzle_str ! k) of
           None \<Rightarrow> Inl KeyError
         | Some j \<Rightarrow> Inr j)
      else Inl IndexError)"

text \<open>The body of the loop for one element: the six-slot vector \<^verbatim>\<open>col\<close> is built from
  the element's colour, then the element is overwritten.\<close>

definition swizzle_color :: "nat \<Rightarrow> nat \<Rightarrow> nat \<Rightarrow> nat \<Rightarrow> color \<Rightarrow> color" where
  "swizzle_color new_r new_g new_b new_a c =
     (let col = [red c, green c, blue c, alpha c, 0, 1]
      in \<lparr>red = col ! new_r, green = col ! new_g, blue = col ! new_b, alpha = col ! new_a\<rparr>)"

definition swizzle_channels :: "color list \<Rightarrow> string \<Rightarrow> exn + color list" where
  "swizzle_channels attr_data swizzle_str =
     (case swizzle_source swizzle_str 0 of Inl e \<Rightarrow> Inl e | Inr new_r \<Rightarrow>
      case swizzle_source swizzle_str 1 of Inl e \<Rightarrow> Inl e | Inr new_g \<Rightarrow>
      case swizzle_source swizzle_str 2 of Inl e \<Rightarrow> Inl e | Inr new_b \<Rightarrow>
      case swizzle_source swizzle_str 3 of Inl e \<Rightarrow> Inl e | Inr new_a \<Rightarrow>
        Inr (fold (\<lambda>i d. d[i := swizzle_color new_r new_g new_b new_a (d ! i)])
               [0..<length attr_data] attr_data))"

definition invalid_input_err_msg :: string where
  "invalid_input_err_msg =
     ''Swizzle string must be 4 characters long and only contain R, G, B, A, 0, or 1.''"

text \<open>\<^verbatim>\<open>VCU_OT_swizzle_channels.execute\<close>: the result is the exception raised, or the
  returned status with the reports made and the mesh as the operator leaves it.\<close>

definition swizzle_execute ::
  "string \<Rightarrow> mesh \<Rightarrow> exn + (op_status \<times> (report_type \<times> string) list \<times> mesh)" where
  "swizzle_execute swizzle_str m =
     (let str = swizzle_str in
      if length str \<noteq> 4 then
        Inr (CANCELLED, [(ERROR_INVALID_INPUT, invalid_input_err_msg)], m)
      else
        let str = upper str in
        if find (\<lambda>x. x \<notin> set ''RGBA01'') str \<noteq> None then
          Inr (CANCELLED, [(ERROR_INVALID_INPUT, invalid_input_err_msg)], m)
        else
          let reports =
            (if \<not> (CHR ''R'' \<in> set str \<and> CHR ''G'' \<in> set str \<and>
                    CHR ''B'' \<in> set str \<and> CHR ''A'' \<in> set str)
             then [(WARNING, ''One or more channels will be lost in this swizzle operation.'')]
             else [])
          in
          case active_color m of
            None \<Rightarrow> Inl AttributeError
          | Some attr \<Rightarrow>
              (case swizzle_channels (data attr) str of
                 Inl e \<Rightarrow> Inl e
               | Inr d \<Rightarrow>
                   Inr (FINISHED, reports,
                        m\<lparr>color_attributes :=
                             attrs_set_data (color_attributes m) (name attr) d\<rparr>)))"

text \<open>The spec's wording of a valid swizzle code: exactly four characters, each one of
  R, G, B, A, 0, 1 in either case.\<close>

definition spec_valid_code :: "string \<Rightarrow> bool" where
  "spec_valid_code code = (length code = 4 \<and> (\<forall>x\<in>set code. x \<in> set ''RGBArgba01''))"

subsection \<open>Concrete inputs\<close>

text \<open>A float colour layer on the vertices, and a mesh of colour layers with an active
  one and no geometry, for evaluating the operators on concrete inputs.\<close>

definition example_layer :: "string \<Rightarrow> color list \<Rightarrow> color_attr" where
  "example_layer n d = \<lparr>name = n, data_type = ''FLOAT_COLOR'', domain = ''POINT'', data = d\<rparr>"

definition example_mesh :: "color_attr list \<Rightarrow> string \<Rightarrow> mesh" where
  "example_mesh attrs act =
     \<lparr>color_attributes = attrs, active_color_name = Some act,
      mesh_vertices = [], loops = [], polygons = []\<rparr>"


definition renaming_new ::
  "color list \<Rightarrow> color_attr list \<Rightarrow> string \<Rightarrow> string \<Rightarrow> string \<Rightarrow> color_attr option" where
  "renaming_new fresh attrs n t d =
     Some \<lparr>name = n @ ''.001'', data_type = t, domain = d, data = fresh\<rparr>"

definition refusing_new ::
  "color_attr list \<Rightarrow> string \<Rightarrow> string \<Rightarrow> string \<Rightarrow> color_attr option" where
  "refusing_new attrs n t d = None"

definition first_active :: "color_attr list \<Rightarrow> string option" where
  "first_active attrs = (case attrs of [] \<Rightarrow> None | a # rest \<Rightarrow> Some (name a))"

subsection \<open>Decimal numerals\<close>

text \<open>\<^verbatim>\<open>str(n)\<close> for an integer.\<close>

fun str_nat :: "nat \<Rightarrow> string" where
  "str_nat n =
     (if n < 10 then [''0123456789'' ! n]
      else str_nat (n div 10) @ [''0123456789'' ! (n mod 10)])"

declare str_nat.simps [simp del]

definition str_int :: "int \<Rightarrow> string" where
  "str_int i = (if i < 0 then ''-'' @ str_nat (nat (- i)) else str_nat (nat i))"

subsection \<open>Copying between a base layer and a mask\<close>

text \<open>The apostrophe that the messages put around a name.\<close>

definition apostrophe :: string where
  "apostrophe = [CHR 0x27]"

definition len_mismatch_error :: "color_attr \<Rightarrow> color_attr \<Rightarrow> exn" where
  "len_mismatch_error base mask_attr =
     RuntimeError (''Mask color attribute '' @ apostrophe @ name mask_attr @ apostrophe @
       '' does not have the same amount of vertex data (len='' @
       str_nat (length (data mask_attr)) @ '') as the color base attribute '' @ apostrophe @
       name base @ apostrophe @ '' (len='' @ str_nat (length (data base)) @ '')'')"

definition invalid_channel_error :: "string \<Rightarrow> exn" where
  "invalid_channel_error ch =
     RuntimeError (''Invalid channel string '' @ apostrophe @ ch @ apostrophe)"

text \<open>\<^verbatim>\<open>copy_to_mask\<close> writes into \<^verbatim>\<open>mask.data\<close> (the parameter \<^verbatim>\<open>mask\<close> is \<open>mask_attr\<close>
  here, \<open>mask\<close> being a constant of the library); the model returns that array as the
  loop leaves it. Each branch is the source's loop \<^verbatim>\<open>for i in range(n)\<close>, one element
  overwritten per step.\<close>

definition copy_to_mask :: "color_attr \<Rightarrow> color_attr \<Rightarrow> string \<Rightarrow> exn + color list" where
  "copy_to_mask base mask_attr ch =
     (if length (data base) \<noteq> length (data mask_attr) then Inl (len_mismatch_error base mask_attr)
      else
        let n = length (data base) in
        if ch = ''R'' then
          Inr (fold (\<lambda>i md. md[i := \<lparr>red = red (data base ! i), green = 0, blue = 0, alpha = 1\<rparr>])
                 [0..<n] (data mask_attr))
        else if ch = ''G'' then
          Inr (fold (\<lambda>i md. md[i := \<lparr>red = 0, green = green (data base ! i), blue = 0, alpha = 1\<rparr>])
                 [0..<n] (data mask_attr))
        else if ch = ''B'' then
          Inr (fold (\<lambda>i md. md[i := \<lparr>red = 0, green = 0, blue = blue (data base ! i), alpha = 1\<rparr>])
                 [0..<n] (data mask_attr))
        else if ch = ''A'' then
          Inr (fold (\<lambda>i md. md[i := \<lparr>red = alpha (data base ! i), green = alpha (data base ! i),
                                      blue = alpha (data base ! i), alpha = 1\<rparr>])
                 [0..<n] (data mask_attr))
        else if ch = ''RG'' then
          Inr (fold (\<lambda>i md. md[i := \<lparr>red = red (data base ! i), green = green (data base ! i),
                                      blue = 0, alpha = 1\<rparr>])
                 [0..<n] (data mask_attr))
        else if ch = ''RB'' then
          Inr (fold (\<lambda>i md. md[i := \<lparr>red = red (data base ! i), green = 0,
                                      blue = blue (data base ! i), alpha = 1\<rparr>])
                 [0..<n] (data mask_attr))
        else if ch = ''GB'' then
          Inr (fold (\<lambda>i md. md[i := \<lparr>red = 0, green = green (data base ! i),
                                      blue = blue (data base ! i), alpha = 1\<rparr>])
                 [0..<n] (data mask_attr))
        else if ch = ''RGB'' then
          Inr (fold (\<lambda>i md. md[i := \<lparr>red = red (data base ! i), green = green (data base ! i),
                                      blue = blue (data base ! i), alpha = 1\<rparr>])
                 [0..<n] (data mask_attr))
        else Inl (invalid_channel_error ch))"

text \<open>\<^verbatim>\<open>copy_from_mask\<close> writes single components of \<^verbatim>\<open>base.data[i].color\<close>; the model
  returns the array of the base layer as the loop leaves it.\<close>

definition copy_from_mask :: "color_attr \<Rightarrow> color_attr \<Rightarrow> string \<Rightarrow> exn + color list" where
  "copy_from_mask base mask_attr ch =
     (if length (data base) \<noteq> length (data mask_attr) then Inl (len_mismatch_error base mask_attr)
      else
        let n = length (data base) in
        if ch = ''R'' then
          Inr (fold (\<lambda>i bd. bd[i := (bd ! i)\<lparr>red := red (data mask_attr ! i)\<rparr>]) [0..<n] (data base))
        else if ch = ''G'' then
          Inr (fold (\<lambda>i bd. bd[i := (bd ! i)\<lparr>green := green (data mask_attr ! i)\<rparr>]) [0..<n] (data base))
        else if ch = ''B'' then
          Inr (fold (\<lambda>i bd. bd[i := (bd ! i)\<lparr>blue := blue (data mask_attr ! i)\<rparr>]) [0..<n] (data base))
        else if ch = ''A'' then
          Inr (fold (\<lambda>i bd. bd[i := (bd ! i)\<lparr>alpha := red (data mask_attr ! i)\<rparr>]) [0..<n] (data base))
        else if ch = ''RG'' then
          Inr (fold (\<lambda>i bd. bd[i := (bd ! i)\<lparr>red := red (data mask_attr ! i),
                                              green := green (data mask_attr ! i)\<rparr>])
                 [0..<n] (data base))
        else if ch = ''RB'' then
          Inr (fold (\<lambda>i bd. bd[i := (bd ! i)\<lparr>red := red (data mask_attr ! i),
                                              blue := blue (data mask_attr ! i)\<rparr>])
                 [0..<n] (data base))
        else if ch = ''GB'' then
          Inr (fold (\<lambda>i bd. bd[i := (bd ! i)\<lparr>green := green (data mask_attr ! i),
                                              blue := blue (data mask_attr ! i)\<rparr>])
                 [0..<n] (data base))
        else if ch = ''RGB'' then
          Inr (fold (\<lambda>i bd. bd[i := (bd ! i)\<lparr>red := red (data mask_attr ! i),
                                              green := green (data mask_attr ! i),
                                              blue := blue (data mask_attr ! i)\<rparr>])
                 [0..<n] (data base))
        else Inl (invalid_channel_error ch))"

subsection \<open>Creating and applying a mask\<close>

text \<open>\<^verbatim>\<open>color_attrs.new(name, data_type, domain)\<close> is the host's, and the parameter
  \<open>host_new\<close>: for the collection and the three arguments it gives what the call
  returns, which is \<^verbatim>\<open>None\<close> when the host refuses the name, and otherwise the layer that
  the host has appended to the collection, under the name the host gave it (the requested
  one, or another when the host renames it) and with the array the host allocated. The
  copying code then writes into that appended layer. An exception leaves the function
  with the error alone; the state at that moment is not part of the result.\<close>

definition create_color_channel_mask ::
  "(color_attr list \<Rightarrow> string \<Rightarrow> string \<Rightarrow> string \<Rightarrow> color_attr option) \<Rightarrow>
   mesh \<Rightarrow> color_attr \<Rightarrow> string \<Rightarrow> exn + (color_attr \<times> mesh)" where
  "create_color_channel_mask host_new m base_attr channel_str =
     (let color_attrs = color_attributes m;
          base_attr_name = name base_attr;
          mask_attr_name = base_attr_name @ ''__'' @ channel_str
      in
      if attrs_contains color_attrs mask_attr_name then
        (case attrs_get color_attrs mask_attr_name of
           None \<Rightarrow> Inl KeyError
         | Some existing \<Rightarrow> Inr (existing, m))
      else
        case host_new color_attrs mask_attr_name (data_type base_attr) (domain base_attr) of
          None \<Rightarrow>
            (case attrs_get color_attrs base_attr_name of
               None \<Rightarrow> Inl KeyError
             | Some base_attr \<Rightarrow> Inl AttributeError)
        | Some mask_attr \<Rightarrow>
            (case attrs_get (color_attrs @ [mask_attr]) base_attr_name of
               None \<Rightarrow> Inl KeyError
             | Some base_attr \<Rightarrow>
                 (case copy_to_mask base_attr mask_attr channel_str of
                    Inl e \<Rightarrow> Inl e
                  | Inr d \<Rightarrow>
                      Inr (mask_attr\<lparr>data := d\<rparr>,
                           m\<lparr>color_attributes := color_attrs @ [mask_attr\<lparr>data := d\<rparr>]\<rparr>))))"

text \<open>The first step of \<^verbatim>\<open>VCU_OT_create_color_channel_mask.execute\<close> after the channel
  code: an active layer that is itself a mask is replaced by its base layer, and the
  operator is cancelled with the message on the left when that base is missing. The test
  \<^verbatim>\<open>base_name in color_attrs\<close> and the lookup \<^verbatim>\<open>color_attrs[base_name]\<close> are the one
  search by name.\<close>

definition base_of_active :: "color_attr list \<Rightarrow> color_attr \<Rightarrow> string + color_attr" where
  "base_of_active color_attrs base_attr =
     (if attr_name_is_mask (name base_attr) then
        (case get_mask_name_parts (name base_attr) of (base_name, _) \<Rightarrow>
           (case attrs_get color_attrs base_name of
              Some b \<Rightarrow> Inr b
            | None \<Rightarrow>
                Inl (''Active vertex color attribute '' @ apostrophe @ name base_attr @ apostrophe @
                     '' appears to already be a mask, and no base color attribute '' @ apostrophe @
                     base_name @ apostrophe @ '' can be found.'')))
      else Inr base_attr)"

text \<open>\<^verbatim>\<open>VCU_OT_create_color_channel_mask.execute\<close>. The property \<^verbatim>\<open>self.channels\<close> is
  the list \<open>channels\<close> (a set, in its iteration order); the result carries the status, the
  reports, the value of the property afterwards and the mesh.\<close>

definition create_mask_execute ::
  "(color_attr list \<Rightarrow> string \<Rightarrow> string \<Rightarrow> string \<Rightarrow> color_attr option) \<Rightarrow>
   char list \<Rightarrow> mesh \<Rightarrow>
   exn + (op_status \<times> (report_type \<times> string) list \<times> char set \<times> mesh)" where
  "create_mask_execute host_new channels m =
     (let color_attrs = color_attributes m;
          channel_str = make_channel_str (set channels)
      in
      if channel_str = [] then Inr (FINISHED, [], set channels, m)
      else
        case active_color m of
          None \<Rightarrow> Inl AttributeError
        | Some active \<Rightarrow>
            (case base_of_active color_attrs active of
               Inl msg \<Rightarrow> Inr (CANCELLED, [(ERROR_INVALID_INPUT, msg)], set channels, m)
             | Inr base_attr \<Rightarrow>
                 (case check_for_conflicting_mask color_attrs (name base_attr) channels of
                    Some (c, a) \<Rightarrow>
                      Inr (FINISHED,
                           [(WARNING, ''There is already a mask '' @ apostrophe @ name a @
                               apostrophe @ '' which includes channel '' @ apostrophe @ [c] @
                               apostrophe @ ''. Please apply it first before making a new mask which includes that channel.'')],
                           make_channel_set (snd (get_mask_name_parts (name a))),
                           m\<lparr>active_color_name := Some (name a)\<rparr>)
                  | None \<Rightarrow>
                      (case create_color_channel_mask host_new m base_attr channel_str of
                         Inl e \<Rightarrow> Inl e
                       | Inr (mask_attr, m') \<Rightarrow>
                           Inr (FINISHED, [], set channels,
                                m'\<lparr>active_color_name := Some (name mask_attr)\<rparr>)))))"

text \<open>\<^verbatim>\<open>VCU_OT_apply_mask.execute\<close>. After \<^verbatim>\<open>color_attrs.remove(mask_attr)\<close> the host
  makes another layer active: the parameter \<open>host_active\<close> gives the name of the layer
  the host makes active for the collection that remains (none when it is empty).\<close>

definition apply_mask_execute ::
  "(color_attr list \<Rightarrow> string option) \<Rightarrow> mesh \<Rightarrow>
   exn + (op_status \<times> (report_type \<times> string) list \<times> mesh)" where
  "apply_mask_execute host_active m =
     (let color_attrs = color_attributes m in
      case active_color m of
        None \<Rightarrow> Inl AttributeError
      | Some mask_attr \<Rightarrow>
          if \<not> attr_name_is_mask (name mask_attr) then
            Inr (CANCELLED,
                 [(ERROR_INVALID_INPUT, ''Active vertex color attribute '' @ apostrophe @
                     name mask_attr @ apostrophe @ '' does not appear to be a mask.'')], m)
          else
            (case get_mask_name_parts (name mask_attr) of (base_name, channel_str) \<Rightarrow>
               if \<not> attrs_contains color_attrs base_name then
                 Inr (CANCELLED,
                      [(ERROR_INVALID_INPUT, ''No base color attribute '' @ apostrophe @
                          base_name @ apostrophe @ '' can be found to apply the mask to.'')], m)
               else
                 (case attrs_get color_attrs base_name of
                    None \<Rightarrow> Inl KeyError
                  | Some base_attr \<Rightarrow>
                      (case copy_from_mask base_attr mask_attr channel_str of
                         Inl e \<Rightarrow> Inl e
                       | Inr d \<Rightarrow>
                           let remaining =
                                 attrs_remove (attrs_set_data color_attrs base_name d)
                                   (name mask_attr)
                           in
                           Inr (FINISHED, [],
                                m\<lparr>color_attributes := remaining,
                                  active_color_name := host_active remaining\<rparr>)))))"


definition channel :: "char \<Rightarrow> color \<Rightarrow> real" where
  "channel c col =
     (if c = CHR ''R'' then red col
      else if c = CHR ''G'' then green col
      else if c = CHR ''B'' then blue col
      else alpha col)"



subsection \<open>The sampler: the colour under a ray hit\<close>

text \<open>A Python float as the sampler's distances have them: a finite number, \<^verbatim>\<open>inf\<close> or
  \<^verbatim>\<open>nan\<close> (a magnitude is never negative, so no negative infinity occurs), and Python's
  \<^verbatim>\<open>a < b\<close> on two of them: nothing is below a \<^verbatim>\<open>nan\<close>, a \<^verbatim>\<open>nan\<close> and an
  \<^verbatim>\<open>inf\<close> are below nothing.\<close>

datatype pyfloat = Fin real | PosInf | NaN

fun float_less :: "pyfloat \<Rightarrow> pyfloat \<Rightarrow> bool" where
  "float_less (Fin x) (Fin y) = (x < y)"
| "float_less (Fin x) PosInf = True"
| "float_less a b = False"

text \<open>Python's \<^verbatim>\<open>xs[i]\<close> for an integer \<open>i\<close>: a negative index counts from the end, an
  index outside the sequence raises \<^verbatim>\<open>IndexError\<close>.\<close>

definition py_getitem :: "'a list \<Rightarrow> int \<Rightarrow> exn + 'a" where
  "py_getitem xs i =
     (if 0 \<le> i \<and> i < int (length xs) then Inr (xs ! nat i)
      else if i < 0 \<and> - int (length xs) \<le> i then Inr (xs ! nat (int (length xs) + i))
      else Inl IndexError)"

text \<open>The loop \<^verbatim>\<open>for i, v_idx in enumerate(face.vertices)\<close>, with the running index
  \<open>i\<close> and the pair \<^verbatim>\<open>(min_dist, closest_face_vertex_index)\<close> as its state. The
  vector arithmetic is the host's, in single precision: the parameter \<open>host_magnitude\<close>
  gives, for \<^verbatim>\<open>v_loc\<close> and \<^verbatim>\<open>hit_loc\<close>, the float that
  \<^verbatim>\<open>(v_loc - hit_loc).magnitude\<close> evaluates to.\<close>

fun closest_loop ::
  "(vec \<Rightarrow> vec \<Rightarrow> pyfloat) \<Rightarrow> vec list \<Rightarrow> vec \<Rightarrow> nat \<Rightarrow> nat list \<Rightarrow> pyfloat \<times> int \<Rightarrow>
   exn + (pyfloat \<times> int)" where
  "closest_loop host_magnitude verts hit_loc i [] st = Inr st"
| "closest_loop host_magnitude verts hit_loc i (v_idx # rest)
     (min_dist, closest_face_vertex_index) =
     (case py_getitem verts (int v_idx) of
        Inl e \<Rightarrow> Inl e
      | Inr v_loc \<Rightarrow>
          let dist = host_magnitude v_loc hit_loc in
          if float_less dist min_dist
          then closest_loop host_magnitude verts hit_loc (Suc i) rest (dist, int i)
          else closest_loop host_magnitude verts hit_loc (Suc i) rest
                 (min_dist, closest_face_vertex_index))"

definition pick_vertex_color_from_rayhit ::
  "(vec \<Rightarrow> vec \<Rightarrow> pyfloat) \<Rightarrow> mesh \<Rightarrow> vec \<Rightarrow> int \<Rightarrow> exn + color option" where
  "pick_vertex_color_from_rayhit host_magnitude m hit_loc hit_face_index =
     (case active_color m of
        None \<Rightarrow> Inl AttributeError
      | Some color_attr \<Rightarrow>
          let vert_colors = data color_attr in
          case py_getitem (polygons m) hit_face_index of
            Inl e \<Rightarrow> Inl e
          | Inr face \<Rightarrow>
              if length (vertices face) = 0 then Inr None
              else
                (case closest_loop host_magnitude (mesh_vertices m) hit_loc 0 (vertices face)
                        (PosInf, - 1) of
                   Inl e \<Rightarrow> Inl e
                 | Inr (min_dist, closest_face_vertex_index) \<Rightarrow>
                     if domain color_attr = ''POINT'' then
                       if length vert_colors \<noteq> length (mesh_vertices m) then
                         Inl (Exception
                           (''Unexpected number of vertex color datapoints for POINT domain (got '' @
                            str_nat (length vert_colors) @ '', expected '' @
                            str_nat (length (mesh_vertices m)) @ '')''))
                       else
                         (case py_getitem (vertices face) closest_face_vertex_index of
                            Inl e \<Rightarrow> Inl e
                          | Inr closest_vertex_index \<Rightarrow>
                              (case py_getitem vert_colors (int closest_vertex_index) of
                                 Inl e \<Rightarrow> Inl e
                               | Inr c \<Rightarrow> Inr (Some c)))
                     else if domain color_attr = ''CORNER'' then
                       if length vert_colors \<noteq> length (loops m) then
                         Inl (Exception
                           (''Unexpected number of vertex color datapoints for CORNER domain (got '' @
                            str_nat (length vert_colors) @ '', expected '' @
                            str_nat (length (loops m)) @ '')''))
                       else
                         (case py_getitem (loop_indices face) closest_face_vertex_index of
                            Inl e \<Rightarrow> Inl e
                          | Inr closest_loop_index \<Rightarrow>
                              (case py_getitem vert_colors (int closest_loop_index) of
                                 Inl e \<Rightarrow> Inl e
                               | Inr c \<Rightarrow> Inr (Some c)))
                     else
                       Inl (Exception (''Unknown domain '' @ apostrophe @ domain color_attr @
                              apostrophe @ '' on active color attribute.''))))"

text \<open>\<^verbatim>\<open>pick_vertex_color_from_mouse_coord\<close>: the projection of the cursor and the ray
  cast are the host's; \<open>hit\<close> is what \<^verbatim>\<open>ob.ray_cast\<close> returned, its flag, location and
  face index.\<close>

definition pick_vertex_color_from_mouse_coord ::
  "(vec \<Rightarrow> vec \<Rightarrow> pyfloat) \<Rightarrow> mesh \<Rightarrow> bool \<times> vec \<times> int \<Rightarrow> exn + color option" where
  "pick_vertex_color_from_mouse_coord host_magnitude m hit =
     (case hit of (hit_ok, location, face_index) \<Rightarrow>
        if \<not> hit_ok then Inr None
        else pick_vertex_color_from_rayhit host_magnitude m location face_index)"

text \<open>The spec's wording of the Euclidean distance of two points, and of the selected
  vertex for a list of exact distances: position \<open>k\<close> holds a minimum, and every earlier
  position holds a strictly larger distance.\<close>

definition spec_euclidean :: "vec \<Rightarrow> vec \<Rightarrow> real" where
  "spec_euclidean v w =
     (case v of (vx, vy, vz) \<Rightarrow> case w of (wx, wy, wz) \<Rightarrow>
        sqrt ((vx - wx) * (vx - wx) + (vy - wy) * (vy - wy) + (vz - wz) * (vz - wz)))"

definition spec_first_min :: "real list \<Rightarrow> nat \<Rightarrow> bool" where
  "spec_first_min ds k =
     (k < length ds \<and> (\<forall>x\<in>set ds. ds ! k \<le> x) \<and> (\<forall>x\<in>set (take k ds). ds ! k < x))"

text \<open>The same for the floats the host computes: position \<open>k\<close> holds a finite float, no
  finite float of the list is smaller, and every finite float before \<open>k\<close> is strictly
  larger.\<close>

definition spec_first_least :: "pyfloat list \<Rightarrow> nat \<Rightarrow> bool" where
  "spec_first_least ds k =
     (k < length ds \<and>
      (case ds ! k of
         Fin x \<Rightarrow>
           (\<forall>d\<in>set ds. case d of Fin y \<Rightarrow> x \<le> y | PosInf \<Rightarrow> True | NaN \<Rightarrow> True) \<and>
           (\<forall>d\<in>set (take k ds). case d of Fin y \<Rightarrow> x < y | PosInf \<Rightarrow> True | NaN \<Rightarrow> True)
       | PosInf \<Rightarrow> False
       | NaN \<Rightarrow> False))"

text \<open>Two hosts for the magnitude. The first computes the distance exactly. The second is
  single precision as far as overflow goes: \<^verbatim>\<open>mathutils\<close> holds the components of a
  vector in single precision and multiplies them in single precision, so the square of a
  component of the difference that is \<open>2^128\<close> or more, beyond every single-precision
  number, is \<^verbatim>\<open>inf\<close>, and so are the sum of the squares and its root; below that this
  host gives the exact distance.\<close>

definition exact_magnitude :: "vec \<Rightarrow> vec \<Rightarrow> pyfloat" where
  "exact_magnitude v w = Fin (spec_euclidean v w)"

definition overflowing_magnitude :: "vec \<Rightarrow> vec \<Rightarrow> pyfloat" where
  "overflowing_magnitude v w =
     (case v of (vx, vy, vz) \<Rightarrow> case w of (wx, wy, wz) \<Rightarrow>
        if 2 ^ 128 \<le> (vx - wx) * (vx - wx) \<or> 2 ^ 128 \<le> (vy - wy) * (vy - wy) \<or>
           2 ^ 128 \<le> (vz - wz) * (vz - wz)
        then PosInf
        else Fin (spec_euclidean v w))"

text \<open>A triangle around the point \<open>(1, 1, 1)\<close> of its plane, whose vertices, in the
  order of the face, lie at the distances 2.0, 0.5 and 1.7 from that point, behind a face
  without vertices; its one colour layer has three elements and the given domain.\<close>

definition example_tri_layer :: "string \<Rightarrow> color_attr" where
  "example_tri_layer d =
     \<lparr>name = ''Col'', data_type = ''FLOAT_COLOR'', domain = d,
      data = [\<lparr>red = 1, green = 0, blue = 0, alpha = 1\<rparr>,
              \<lparr>red = 0, green = 1, blue = 0, alpha = 1\<rparr>,
              \<lparr>red = 0, green = 0, blue = 1, alpha = 1\<rparr>]\<rparr>"

definition example_tri_mesh :: "color_attr \<Rightarrow> mesh" where
  "example_tri_mesh l =
     \<lparr>color_attributes = [l], active_color_name = Some (name l),
      mesh_vertices = [(7/10, 7/5, 1), (3, 1, 1), (1/5, - 1/2, 1)],
      loops = [1, 0, 2],
      polygons = [\<lparr>vertices = [], loop_indices = []\<rparr>,
                  \<lparr>vertices = [1, 0, 2], loop_indices = [0, 1, 2]\<rparr>]\<rparr>"

text \<open>A triangle so large that every square of a coordinate difference between a vertex
  and the hit point \<open>(6*10^19, 4*10^19, 6*10^19)\<close> on it is beyond single precision. Its
  first vertex is the nearest to that point, its last the farthest.\<close>

definition example_huge_mesh :: "color_attr \<Rightarrow> mesh" where
  "example_huge_mesh l =
     \<lparr>color_attributes = [l], active_color_name = Some (name l),
      mesh_vertices = [(10 ^ 20, 0, 0), (0, 2 * 10 ^ 20, 0), (0, 0, 3 * 10 ^ 20)],
      loops = [0, 1, 2],
      polygons = [\<lparr>vertices = [0, 1, 2], loop_indices = [0, 1, 2]\<rparr>]\<rparr>"

definition example_huge_hit :: vec where
  "example_huge_hit = (6 * 10 ^ 19, 4 * 10 ^ 19, 6 * 10 ^ 19)"

subsection \<open>Formatting a sampled colour\<close>

text \<open>Python's \<^verbatim>\<open>round(x)\<close>: to the nearest integer, a tie to the even one. The colour
  components come from single-precision storage, so \<^verbatim>\<open>c*255\<close> is exact in double
  precision and the product of the model is the product of the code.\<close>

definition py_round :: "real \<Rightarrow> int" where
  "py_round x =
     (let f = \<lfloor>x\<rfloor>; d = x - of_int f
      in if d < 1/2 then f
         else if 1/2 < d then f + 1
         else if even f then f else f + 1)"

text \<open>The format \<^verbatim>\<open>02X\<close>: upper-case hexadecimal digits, filled with zeros to two
  characters, a minus sign counting as one of them.\<close>

fun hex_nat :: "nat \<Rightarrow> string" where
  "hex_nat n =
     (if n < 16 then [''0123456789ABCDEF'' ! n]
      else hex_nat (n div 16) @ [''0123456789ABCDEF'' ! (n mod 16)])"

declare hex_nat.simps [simp del]

definition format_02X :: "int \<Rightarrow> string" where
  "format_02X n =
     (if n < 0 then ''-'' @ hex_nat (nat (- n))
      else if length (hex_nat (nat n)) < 2 then ''0'' @ hex_nat (nat n)
      else hex_nat (nat n))"

definition col_to_hex :: "real list \<Rightarrow> exn + string" where
  "col_to_hex col =
     (let b = map (\<lambda>c. py_round (c * 255)) col in
      if length b < 3 then Inl IndexError
      else
        let str = ''#'' @ format_02X (b ! 0) @ format_02X (b ! 1) @ format_02X (b ! 2) in
        if length b = 4 \<and> b ! 3 \<noteq> 255 then Inr (str @ format_02X (b ! 3))
        else Inr str)"

text \<open>The format \<^verbatim>\<open>{:.3f}\<close>: the value rounded to three decimals (a tie to the even
  digit), its sign, its integer part, the point and three digits.\<close>

definition format_3f :: "real \<Rightarrow> string" where
  "format_3f f =
     (let n = nat (py_round (\<bar>f\<bar> * 1000)) in
      (if f < 0 then ''-'' else '''') @ str_nat (n div 1000) @ ''.'' @
      [''0123456789'' ! (n mod 1000 div 100), ''0123456789'' ! (n mod 100 div 10),
       ''0123456789'' ! (n mod 10)])"

text \<open>\<^verbatim>\<open>f.is_integer()\<close> and \<^verbatim>\<open>int(f)\<close>, which truncates towards zero.\<close>

definition is_integer :: "real \<Rightarrow> bool" where
  "is_integer f = (of_int \<lfloor>f\<rfloor> = f)"

definition py_int :: "real \<Rightarrow> int" where
  "py_int f = (if f < 0 then \<lceil>f\<rceil> else \<lfloor>f\<rfloor>)"

definition f2s :: "real \<Rightarrow> string" where
  "f2s f = (if is_integer f then str_int (py_int f) else format_3f f)"

text \<open>\<^verbatim>\<open>sep.join(xs)\<close>.\<close>

fun join :: "string \<Rightarrow> string list \<Rightarrow> string" where
  "join sep [] = []"
| "join sep [x] = x"
| "join sep (x # y # ys) = x @ sep @ join sep (y # ys)"

text \<open>The report line of \<^verbatim>\<open>do_sample\<close>, from the two colours as lists of components.\<close>

definition report_line :: "real list \<Rightarrow> real list \<Rightarrow> exn + string" where
  "report_line col_lin col_srgb =
     (let col_lin_str = join '', '' (map f2s col_lin);
          col_srgb_str = join '', '' (map f2s col_srgb)
      in
      case col_to_hex col_lin of
        Inl e \<Rightarrow> Inl e
      | Inr col_lin_hex_str \<Rightarrow>
          (case col_to_hex col_srgb of
             Inl e \<Rightarrow> Inl e
           | Inr col_srgb_hex_str \<Rightarrow>
               if col_lin_str = col_srgb_str then
                 Inr (''Color is  '' @ col_lin_hex_str @ '' ('' @ col_lin_str @ '')'')
               else
                 Inr (''Linear color is  '' @ col_lin_hex_str @ '' ('' @ col_lin_str @
                      '')  |  SRGB color is '' @ col_srgb_hex_str @ '' ('' @ col_srgb_str @ '')'')))"

text \<open>\<^verbatim>\<open>color[:]\<close>: the four components as a list.\<close>

definition color_list :: "color \<Rightarrow> real list" where
  "color_list c = [red c, green c, blue c, alpha c]"

subsection \<open>The interactive sampler\<close>

text \<open>The host is a parameter: its state is of any type \<open>'s\<close>, and the calls the sampler
  makes on the context are functions on that state that return the new state or raise.
  A host call that raises is taken to leave the host state as it was. The ray cast, the
  magnitude of a difference of vectors and the conversion to the display colour are the
  host's as well.\<close>

record 's host_api =
  cursor_modal_restore :: "'s \<Rightarrow> exn + 's"
  header_text_set :: "string option \<Rightarrow> 's \<Rightarrow> exn + 's"
  event_timer_remove :: "nat \<Rightarrow> 's \<Rightarrow> exn + 's"
  set_show_brush :: "bool \<Rightarrow> 's \<Rightarrow> exn + 's"
  status_text_set :: "string option \<Rightarrow> 's \<Rightarrow> exn + 's"
  set_brush_color :: "real \<times> real \<times> real \<Rightarrow> 's \<Rightarrow> exn + 's"
  ray_cast :: "real \<times> real \<Rightarrow> 's \<Rightarrow> exn + (bool \<times> vec \<times> int)"
  vector_magnitude :: "vec \<Rightarrow> vec \<Rightarrow> pyfloat"
  active_mesh :: "'s \<Rightarrow> mesh"
  color_srgb :: "color \<Rightarrow> color"

text \<open>The state the sampler works on: the host, the two module-level globals, the
  operator's \<^verbatim>\<open>first_modal\<close> and the reports it has made.\<close>

record 's sampler =
  host :: 's
  sample_vertex_color_timer :: "nat option"
  prev_show_brush :: bool
  first_modal :: bool
  reports :: "(report_type \<times> string) list"

record event =
  ev_type :: string
  ev_value :: string
  ctrl :: bool
  mouse_region_x :: real
  mouse_region_y :: real

text \<open>A statement either raises, which gives the exception with the state at that moment,
  or completes with a state. \<open>then_do\<close> is the sequence of two statements, \<open>try_pass\<close>
  is \<^verbatim>\<open>try: ... except: pass\<close>, \<open>host_call\<close> is one call on the host.\<close>

definition then_do ::
  "(exn \<times> 'st) + 'st \<Rightarrow> ('st \<Rightarrow> (exn \<times> 'st) + 'st) \<Rightarrow> (exn \<times> 'st) + 'st" where
  "then_do r f = (case r of Inl x \<Rightarrow> Inl x | Inr st \<Rightarrow> f st)"

definition try_pass :: "('st \<Rightarrow> (exn \<times> 'st) + 'st) \<Rightarrow> 'st \<Rightarrow> (exn \<times> 'st) + 'st" where
  "try_pass body st = (case body st of Inl (e, st') \<Rightarrow> Inr st' | Inr st' \<Rightarrow> Inr st')"

definition host_call ::
  "('s \<Rightarrow> exn + 's) \<Rightarrow> 's sampler \<Rightarrow> (exn \<times> 's sampler) + 's sampler" where
  "host_call f st = (case f (host st) of Inl e \<Rightarrow> Inl (e, st) | Inr h \<Rightarrow> Inr (st\<lparr>host := h\<rparr>))"

definition sample_vertex_color_end ::
  "'s host_api \<Rightarrow> 's sampler \<Rightarrow> (exn \<times> 's sampler) + 's sampler" where
  "sample_vertex_color_end api st =
     then_do (try_pass (host_call (cursor_modal_restore api)) st) (\<lambda>st.
     then_do (try_pass (host_call (header_text_set api None)) st) (\<lambda>st.
     then_do (try_pass (\<lambda>st.
                then_do (case sample_vertex_color_timer st of
                           None \<Rightarrow> Inr st
                         | Some t \<Rightarrow> host_call (event_timer_remove api t) st)
                  (\<lambda>st. Inr (st\<lparr>sample_vertex_color_timer := None\<rparr>))) st) (\<lambda>st.
     then_do (try_pass (\<lambda>st. host_call (set_show_brush api (prev_show_brush st)) st) st) (\<lambda>st.
     try_pass (host_call (status_text_set api None)) st))))"

text \<open>\<^verbatim>\<open>do_sample\<close>. The ray cast of \<^verbatim>\<open>pick_vertex_color_from_mouse_coord\<close> is made
  here, on the host, and its result handed on.\<close>

definition do_sample ::
  "'s host_api \<Rightarrow> event \<Rightarrow> 's sampler \<Rightarrow> (exn \<times> 's sampler) + 's sampler" where
  "do_sample api event st =
     (let coord = (mouse_region_x event, mouse_region_y event) in
      case ray_cast api coord (host st) of
        Inl e \<Rightarrow> Inl (e, st)
      | Inr hit \<Rightarrow>
          (case pick_vertex_color_from_mouse_coord (vector_magnitude api)
                  (active_mesh api (host st)) hit of
             Inl e \<Rightarrow> Inl (e, st)
           | Inr None \<Rightarrow>
               host_call (header_text_set api (Some ''Active object not under mouse cursor'')) st
           | Inr (Some col_attr_val) \<Rightarrow>
               let col_lin = color_list col_attr_val;
                   col_srgb = color_list (color_srgb api col_attr_val)
               in
               (case report_line col_lin col_srgb of
                  Inl e \<Rightarrow> Inl (e, st)
                | Inr report_str \<Rightarrow>
                    then_do
                      (Inr (if ev_type event = ''LEFTMOUSE''
                            then st\<lparr>reports := reports st @ [(INFO, report_str)]\<rparr>
                            else st)) (\<lambda>st.
                    then_do (host_call (header_text_set api (Some report_str)) st) (\<lambda>st.
                      if ev_type event = ''LEFTMOUSE'' \<and> \<not> ctrl event then
                        try_pass (host_call
                          (set_brush_color api (col_srgb ! 0, col_srgb ! 1, col_srgb ! 2))) st
                      else Inr st)))))"

text \<open>\<^verbatim>\<open>VCU_OT_sample_vertex_color.modal\<close>: the exception that leaves it with the state at
  that moment, or the status it returns with the state.\<close>

definition modal ::
  "'s host_api \<Rightarrow> event \<Rightarrow> 's sampler \<Rightarrow> (exn \<times> 's sampler) + (op_status \<times> 's sampler)" where
  "modal api event st =
     (if first_modal st \<or> ev_type event = ''TIMER'' \<or>
         (ev_type event = ''LEFTMOUSE'' \<and> ev_value event = ''PRESS'') then
        let st = st\<lparr>first_modal := False\<rparr> in
        case do_sample api event st of
          Inl (e, st) \<Rightarrow>
            (case sample_vertex_color_end api st of
               Inl x \<Rightarrow> Inl x
             | Inr st \<Rightarrow> Inl (e, st))
        | Inr st \<Rightarrow>
            if ev_type event = ''LEFTMOUSE'' \<and> \<not> ctrl event then
              (case sample_vertex_color_end api st of
                 Inl x \<Rightarrow> Inl x
               | Inr st \<Rightarrow> Inr (CANCELLED, st))
            else Inr (RUNNING_MODAL, st)
      else if ev_type event \<in> {''MIDDLEMOUSE'', ''WHEELUPMOUSE'', ''WHEELDOWNMOUSE''} then
        Inr (PASS_THROUGH, st)
      else if ev_type event \<in> {''RIGHTMOUSE'', ''ESC''} then
        (case sample_vertex_color_end api st of
           Inl x \<Rightarrow> Inl x
         | Inr st \<Rightarrow> Inr (CANCELLED, st))
      else Inr (RUNNING_MODAL, st))"

text \<open>The spec's wording of a best-effort step on the host: the effect of the call when it
  succeeds, no effect when it raises.\<close>

definition spec_best_effort :: "('s \<Rightarrow> exn + 's) \<Rightarrow> 's \<Rightarrow> 's" where
  "spec_best_effort f h = (case f h of Inl e \<Rightarrow> h | Inr h' \<Rightarrow> h')"

text \<open>A host whose state is the list of its registered timers: it has no window and no
  paint settings (those calls raise), its header and status calls succeed, removing a
  timer that is not registered raises, every ray hits face 1 of the example triangle, and
  the active layer has the given domain.\<close>

definition example_api :: "string \<Rightarrow> (nat list) host_api" where
  "example_api d =
     \<lparr>cursor_modal_restore = (\<lambda>h. Inl AttributeError),
      header_text_set = (\<lambda>t h. Inr h),
      event_timer_remove =
        (\<lambda>t h. if t \<in> set h then Inr (removeAll t h) else Inl (RuntimeError ''timer'')),
      set_show_brush = (\<lambda>b h. Inl AttributeError),
      status_text_set = (\<lambda>t h. Inr h),
      set_brush_color = (\<lambda>c h. Inr h),
      ray_cast = (\<lambda>coord h. Inr (True, (1, 1, 1), 1)),
      vector_magnitude = exact_magnitude,
      active_mesh = (\<lambda>h. example_tri_mesh (example_tri_layer d)),
      color_srgb = (\<lambda>c. c)\<rparr>"

definition example_sampler :: "(nat list) sampler" where
  "example_sampler =
     \<lparr>host = [7], sample_vertex_color_timer = Some 7, prev_show_brush = True,
      first_modal = False, reports = []\<rparr>"

definition example_event :: "string \<Rightarrow> event" where
  "example_event t =
     \<lparr>ev_type = t, ev_value = ''PRESS'', ctrl = False, mouse_region_x = 0, mouse_region_y = 0\<rparr>"

section \<open>Properties\<close>

subsection \<open>Strings\<close>

lemma endswith_append: "endswith (b @ suf) suf"
  by (simp add: endswith_def)

lemma endswith_iff: "endswith s suf \<longleftrightarrow> (\<exists>b. s = b @ suf)"
proof
  assume "endswith s suf"
  then have "s = take (length s - length suf) s @ suf"
    unfolding endswith_def by (metis append_take_drop_id)
  then show "\<exists>b. s = b @ suf" ..
next
  assume "\<exists>b. s = b @ suf"
  then show "endswith s suf" by (auto simp: endswith_append)
qed

lemma endswith_append_same_length:
  "length suf = length suf' \<Longrightarrow> endswith (b @ suf') suf \<longleftrightarrow> suf' = suf"
  by (auto simp: endswith_def)

lemma parts_code:
  "get_mask_name_parts (B @ ''__R'') = (B, ''R'')"
  "get_mask_name_parts (B @ ''__G'') = (B, ''G'')"
  "get_mask_name_parts (B @ ''__B'') = (B, ''B'')"
  "get_mask_name_parts (B @ ''__A'') = (B, ''A'')"
  "get_mask_name_parts (B @ ''__RG'') = (B, ''RG'')"
  "get_mask_name_parts (B @ ''__RB'') = (B, ''RB'')"
  "get_mask_name_parts (B @ ''__GB'') = (B, ''GB'')"
  "get_mask_name_parts (B @ ''__RGB'') = (B, ''RGB'')"
  by (simp_all add: get_mask_name_parts_def endswith_def slice_upto_neg_def slice_from_neg_def)

lemma is_mask_code:
  "attr_name_is_mask (B @ ''__R'')"
  "attr_name_is_mask (B @ ''__G'')"
  "attr_name_is_mask (B @ ''__B'')"
  "attr_name_is_mask (B @ ''__A'')"
  "attr_name_is_mask (B @ ''__RG'')"
  "attr_name_is_mask (B @ ''__RB'')"
  "attr_name_is_mask (B @ ''__GB'')"
  "attr_name_is_mask (B @ ''__RGB'')"
  by (simp_all add: attr_name_is_mask_def endswith_def)

lemma valid_codes_cases:
  assumes "C \<in> set valid_codes"
  obtains "C = ''R''" | "C = ''G''" | "C = ''B''" | "C = ''A''"
    | "C = ''RG''" | "C = ''RB''" | "C = ''GB''" | "C = ''RGB''"
  using assms unfolding valid_codes_def by auto

lemma parts_roundtrip:
  assumes "C \<in> set valid_codes"
  shows "attr_name_is_mask (B @ ''__'' @ C) \<and> get_mask_name_parts (B @ ''__'' @ C) = (B, C)"
  using assms parts_code [of B] is_mask_code [of B]
  by (cases rule: valid_codes_cases) simp_all

lemma is_mask_iff:
  "attr_name_is_mask n \<longleftrightarrow> (\<exists>B C. C \<in> set valid_codes \<and> n = B @ ''__'' @ C)"
  unfolding attr_name_is_mask_def endswith_iff valid_codes_def
  by auto

subsection \<open>Channel codes (C5)\<close>

text \<open>
  Claim C5. For every set of channels, \<open>make_channel_str\<close> returns exactly \<open>A\<close> when
  the set contains A, and otherwise the letters R, G, B in that order, restricted to the
  members present (the empty string for a set with none of them); deriving the channel set
  of that string and the string of that set again gives the same string.
\<close>

theorem make_channel_str_canonical:
  "make_channel_str S =
     (if CHR ''A'' \<in> S then ''A'' else filter (\<lambda>c. c \<in> S) ''RGB'') \<and>
   make_channel_str (make_channel_set (make_channel_str S)) = make_channel_str S"
  by (simp add: make_channel_str_def make_channel_set_def)

theorem make_channel_str_canonical_witness:
  "make_channel_str {CHR ''B'', CHR ''R''} = ''RB'' \<and>
   make_channel_str {CHR ''G'', CHR ''A''} = ''A'' \<and>
   make_channel_str {} = [] \<and>
   make_channel_str (make_channel_set (make_channel_str {CHR ''B'', CHR ''R''})) = ''RB''"
  using make_channel_str_canonical [of "{CHR ''B'', CHR ''R''}"]
    make_channel_str_canonical [of "{CHR ''G'', CHR ''A''}"]
    make_channel_str_canonical [of "{}"]
  by (simp add: make_channel_str_def make_channel_set_def)

subsection \<open>Mask names (C4)\<close>

text \<open>
  Claim C4. For every one of the eight channel codes \<open>C\<close> and every base name \<open>B\<close>, the
  name \<open>B__C\<close> is recognised as a mask name and parses to exactly \<open>(B, C)\<close>; this holds
  for every \<open>B\<close>, so in particular for one without an embedded \<open>__\<close>. A name is
  recognised as a mask exactly when it ends in \<open>__\<close> followed by one of the eight codes,
  so a name without such an ending is not a mask.
\<close>

theorem mask_name_roundtrip:
  "(C \<in> set valid_codes \<longrightarrow>
      attr_name_is_mask (B @ ''__'' @ C) \<and> get_mask_name_parts (B @ ''__'' @ C) = (B, C)) \<and>
   (attr_name_is_mask n \<longleftrightarrow> (\<exists>B' C'. C' \<in> set valid_codes \<and> n = B' @ ''__'' @ C'))"
  using parts_roundtrip [of C B] is_mask_iff [of n] by blast

theorem mask_name_roundtrip_witness:
  "''RG'' \<in> set valid_codes \<and> attr_name_is_mask ''Col__RG'' \<and>
   get_mask_name_parts ''Col__RG'' = (''Col'', ''RG'') \<and>
   \<not> attr_name_is_mask ''Col_RG''"
  using mask_name_roundtrip [of "''RG''" "''Col''" "''Col_RG''"]
  by (simp add: valid_codes_def attr_name_is_mask_def endswith_def)

subsection \<open>Conflict detection (C3)\<close>

lemma find_Some_mem: "find P xs = Some x \<Longrightarrow> x \<in> set xs \<and> P x"
  by (induction xs) (auto split: if_splits)

lemma check_None_iff:
  "check_for_conflicting_mask attrs base_name channels = None \<longleftrightarrow>
     (\<forall>a\<in>set attrs. \<forall>c\<in>set channels. \<not> spec_conflict base_name channels a c)"
proof (induction attrs)
  case Nil
  then show ?case by simp
next
  case (Cons attr rest)
  show ?case
    using Cons.IH
    by (auto simp: spec_conflict_def find_None_iff dest: find_Some_mem
        split: prod.splits option.splits)
qed

lemma check_Some:
  "check_for_conflicting_mask attrs base_name channels = Some (c, a) \<Longrightarrow>
     a \<in> set attrs \<and> spec_conflict base_name channels a c \<and>
     find (\<lambda>a. \<exists>c\<in>set channels. spec_conflict base_name channels a c) attrs = Some a \<and>
     find (\<lambda>c. c \<in> set (snd (get_mask_name_parts (name a)))) channels = Some c"
proof (induction attrs)
  case Nil
  then show ?case by simp
next
  case (Cons attr rest)
  let ?code = "snd (get_mask_name_parts (name attr))"
  show ?case
  proof (cases "\<exists>c\<in>set channels. spec_conflict base_name channels attr c")
    case True
    then obtain c' where c': "find (\<lambda>c. c \<in> set ?code) channels = Some c'"
      by (cases "find (\<lambda>c. c \<in> set ?code) channels")
        (auto simp: spec_conflict_def find_None_iff)
    from True have m: "attr_name_is_mask (name attr)"
      "fst (get_mask_name_parts (name attr)) = base_name"
      by (auto simp: spec_conflict_def)
    from m c' Cons.prems have eq: "c = c'" "a = attr"
      by (auto split: prod.splits)
    from c' have "c' \<in> set channels" "c' \<in> set ?code"
      by (auto dest: find_Some_mem)
    with m eq c' True show ?thesis
      by (simp add: spec_conflict_def)
  next
    case False
    then have "find (\<lambda>c. c \<in> set ?code) channels = None
        \<or> \<not> attr_name_is_mask (name attr)
        \<or> fst (get_mask_name_parts (name attr)) \<noteq> base_name"
      by (auto simp: spec_conflict_def find_None_iff)
    with Cons.prems have "check_for_conflicting_mask rest base_name channels = Some (c, a)"
      by (auto split: prod.splits option.splits if_splits)
    from Cons.IH [OF this] False show ?thesis by auto
  qed
qed

text \<open>
  Claim C3. Conflict detection returns no conflict exactly when no layer of the
  collection parses as a mask of the requested base with a code that shares a channel with
  the request. Otherwise it returns a pair of a shared channel character and an existing
  mask layer of that base whose code contains it: the first such layer of the collection,
  and the first channel of the request (in its iteration order) found in that layer's code.
  With the layers \<open>Base\<close> and \<open>Base__RG\<close>, requesting G on \<open>Base\<close> gives the
  conflict on G with \<open>Base__RG\<close>, and requesting B gives none.
\<close>

theorem conflict_detection:
  "(check_for_conflicting_mask attrs base_name channels = None \<longleftrightarrow>
      \<not> (\<exists>a\<in>set attrs. \<exists>c\<in>set channels. spec_conflict base_name channels a c)) \<and>
   (\<forall>c a. check_for_conflicting_mask attrs base_name channels = Some (c, a) \<longrightarrow>
      a \<in> set attrs \<and> spec_conflict base_name channels a c \<and>
      find (\<lambda>a. \<exists>c\<in>set channels. spec_conflict base_name channels a c) attrs = Some a \<and>
      find (\<lambda>c. c \<in> set (snd (get_mask_name_parts (name a)))) channels = Some c) \<and>
   (name b = ''Base'' \<and> name m = ''Base__RG'' \<longrightarrow>
      check_for_conflicting_mask [b, m] ''Base'' ''G'' = Some (CHR ''G'', m) \<and>
      check_for_conflicting_mask [b, m] ''Base'' ''B'' = None)"
proof (intro conjI allI impI)
  show "check_for_conflicting_mask attrs base_name channels = None \<longleftrightarrow>
      \<not> (\<exists>a\<in>set attrs. \<exists>c\<in>set channels. spec_conflict base_name channels a c)"
    using check_None_iff [of attrs base_name channels] by blast
next
  fix c a
  assume "check_for_conflicting_mask attrs base_name channels = Some (c, a)"
  from check_Some [OF this]
  show "a \<in> set attrs" "spec_conflict base_name channels a c"
    "find (\<lambda>a. \<exists>c\<in>set channels. spec_conflict base_name channels a c) attrs = Some a"
    "find (\<lambda>c. c \<in> set (snd (get_mask_name_parts (name a)))) channels = Some c"
    by simp_all
next
  assume nm: "name b = ''Base'' \<and> name m = ''Base__RG''"
  have b: "\<not> attr_name_is_mask ''Base''"
    by (simp add: attr_name_is_mask_def endswith_def)
  have m: "attr_name_is_mask ''Base__RG''" "get_mask_name_parts ''Base__RG'' = (''Base'', ''RG'')"
    using is_mask_code(5) [of "''Base''"] parts_code(5) [of "''Base''"] by simp_all
  show "check_for_conflicting_mask [b, m] ''Base'' ''G'' = Some (CHR ''G'', m)"
    using nm b m by simp
  show "check_for_conflicting_mask [b, m] ''Base'' ''B'' = None"
    using nm b m by simp
qed

theorem conflict_detection_witness:
  "check_for_conflicting_mask
     [\<lparr>name = ''Base'', data_type = ''FLOAT_COLOR'', domain = ''POINT'', data = []\<rparr>,
      \<lparr>name = ''Base__RG'', data_type = ''FLOAT_COLOR'', domain = ''POINT'', data = []\<rparr>]
     ''Base'' ''G''
   = Some (CHR ''G'',
       \<lparr>name = ''Base__RG'', data_type = ''FLOAT_COLOR'', domain = ''POINT'', data = []\<rparr>) \<and>
   check_for_conflicting_mask
     [\<lparr>name = ''Base'', data_type = ''FLOAT_COLOR'', domain = ''POINT'', data = []\<rparr>,
      \<lparr>name = ''Base__RG'', data_type = ''FLOAT_COLOR'', domain = ''POINT'', data = []\<rparr>]
     ''Base'' ''B'' = None \<and>
   spec_conflict ''Base'' ''G''
     \<lparr>name = ''Base__RG'', data_type = ''FLOAT_COLOR'', domain = ''POINT'', data = []\<rparr>
     (CHR ''G'')"
  using conflict_detection
    [of "[\<lparr>name = ''Base'', data_type = ''FLOAT_COLOR'', domain = ''POINT'', data = []\<rparr>,
          \<lparr>name = ''Base__RG'', data_type = ''FLOAT_COLOR'', domain = ''POINT'', data = []\<rparr>]"
        "''Base''" "''G''"
        "\<lparr>name = ''Base'', data_type = ''FLOAT_COLOR'', domain = ''POINT'', data = []\<rparr>"
        "\<lparr>name = ''Base__RG'', data_type = ''FLOAT_COLOR'', domain = ''POINT'', data = []\<rparr>"]
  by simp

subsection \<open>Loops that overwrite one element per step\<close>

lemma fold_pointwise:
  "n \<le> length d \<Longrightarrow>
   fold (\<lambda>i d. d[i := F i (d ! i)]) [0..<n] d = map (\<lambda>i. F i (d ! i)) [0..<n] @ drop n d"
proof (induction n)
  case 0
  then show ?case by simp
next
  case (Suc n)
  then have n: "n < length d" by simp
  let ?pre = "map (\<lambda>i. F i (d ! i)) [0..<n]"
  have len: "length ?pre = n" by simp
  have "fold (\<lambda>i d. d[i := F i (d ! i)]) [0..<Suc n] d
      = (?pre @ drop n d)[n := F n ((?pre @ drop n d) ! n)]"
    using Suc by simp
  moreover have "(?pre @ drop n d) ! n = d ! n"
    using n len by (simp add: nth_append)
  moreover have "(?pre @ drop n d)[n := F n (d ! n)] = ?pre @ (drop n d)[0 := F n (d ! n)]"
    using len by (simp add: list_update_append)
  moreover have "drop n d = d ! n # drop (Suc n) d"
    using n by (simp add: Cons_nth_drop_Suc)
  ultimately show ?case by simp
qed

lemma fold_pointwise_all:
  "fold (\<lambda>i d. d[i := F i (d ! i)]) [0..<length d] d = map (\<lambda>i. F i (d ! i)) [0..<length d]"
  using fold_pointwise [of "length d" d F] by simp

lemma map_nth_upt: "map (\<lambda>i. f (d ! i)) [0..<length d] = map f d"
  by (rule nth_equalityI) simp_all

lemma fold_map_elem:
  "fold (\<lambda>i d. d[i := f (d ! i)]) [0..<length d] d = map f d"
  using fold_pointwise_all [of "\<lambda>_. f" d] by (simp only: map_nth_upt)

lemma swizzle_channels_map:
  assumes "swizzle_source s 0 = Inr nr" "swizzle_source s 1 = Inr ng"
    "swizzle_source s 2 = Inr nb" "swizzle_source s 3 = Inr na"
  shows "swizzle_channels d s = Inr (map (swizzle_color nr ng nb na) d)"
  unfolding swizzle_channels_def using assms by (simp add: fold_map_elem)

lemma swizzle_source_RGBA:
  "swizzle_source ''RGBA'' 0 = Inr 0" "swizzle_source ''RGBA'' 1 = Inr 1"
  "swizzle_source ''RGBA'' 2 = Inr 2" "swizzle_source ''RGBA'' 3 = Inr 3"
  by (simp_all add: swizzle_source_def swizzle_map_def)

lemma swizzle_color_id: "swizzle_color 0 1 2 3 = (\<lambda>c. c)"
  by (rule ext) (simp add: swizzle_color_def)

lemma swizzle_RGBA: "swizzle_channels d ''RGBA'' = Inr d"
  unfolding swizzle_channels_map [OF swizzle_source_RGBA] swizzle_color_id by simp

lemma of_char_upper_char:
  "(of_char (upper_char c) :: nat) =
     (if 97 \<le> (of_char c :: nat) \<and> (of_char c :: nat) \<le> 122 then of_char c - 32 else of_char c)"
  by (auto simp: upper_char_def)

lemma char_eq_iff_nat: "c = d \<longleftrightarrow> (of_char c :: nat) = of_char d"
  by (metis char_of_char)

lemma upper_char_in_RGBA01:
  "upper_char c \<in> set ''RGBA01'' \<longleftrightarrow> c \<in> set ''RGBArgba01''"
proof -
  have "upper_char c \<in> set ''RGBA01'' \<longleftrightarrow> (of_char (upper_char c) :: nat) \<in> {82, 71, 66, 65, 48, 49}"
    by (simp add: char_eq_iff_nat [of "upper_char c"])
  also have "\<dots> \<longleftrightarrow> (of_char c :: nat) \<in> {82, 71, 66, 65, 114, 103, 98, 97, 48, 49}"
    unfolding of_char_upper_char by auto
  also have "\<dots> \<longleftrightarrow> c \<in> set ''RGBArgba01''"
    by (simp add: char_eq_iff_nat [of c])
  finally show ?thesis .
qed

lemma valid_upper:
  "find (\<lambda>x. x \<notin> set ''RGBA01'') (upper code) = None \<longleftrightarrow> (\<forall>x\<in>set code. x \<in> set ''RGBArgba01'')"
  unfolding find_None_iff upper_def using upper_char_in_RGBA01 by auto

lemma swizzle_source_valid:
  assumes "\<forall>x\<in>set s. x \<in> set ''RGBA01''" "k < length s"
  shows "\<exists>j. swizzle_source s k = Inr j"
proof -
  from assms have "s ! k \<in> set ''RGBA01''" by (metis nth_mem)
  then have "\<exists>j. swizzle_map (s ! k) = Some j"
    by (auto simp: swizzle_map_def)
  with assms(2) show ?thesis by (auto simp: swizzle_source_def)
qed

lemma swizzle_channels_valid:
  assumes "\<forall>x\<in>set s. x \<in> set ''RGBA01''" "length s = 4"
  shows "\<exists>d'. swizzle_channels d s = Inr d'"
proof -
  from assms obtain nr ng nb na where
    "swizzle_source s 0 = Inr nr" "swizzle_source s 1 = Inr ng"
    "swizzle_source s 2 = Inr nb" "swizzle_source s 3 = Inr na"
    using swizzle_source_valid [of s 0] swizzle_source_valid [of s 1]
      swizzle_source_valid [of s 2] swizzle_source_valid [of s 3] by auto
  from swizzle_channels_map [OF this] show ?thesis by blast
qed

lemma swizzle_execute_invalid:
  assumes "\<not> spec_valid_code code"
  shows "swizzle_execute code m = Inr (CANCELLED, [(ERROR_INVALID_INPUT, invalid_input_err_msg)], m)"
proof (cases "length code = 4")
  case False
  then show ?thesis by (simp add: swizzle_execute_def)
next
  case True
  with assms have "find (\<lambda>x. x \<notin> set ''RGBA01'') (upper code) \<noteq> None"
    unfolding valid_upper spec_valid_code_def by simp
  with True show ?thesis by (simp add: swizzle_execute_def Let_def)
qed

lemma swizzle_execute_valid:
  assumes "spec_valid_code code" "active_color m = Some attr"
  shows "\<exists>d. swizzle_channels (data attr) (upper code) = Inr d \<and>
     swizzle_execute code m =
       Inr (FINISHED,
            (if \<forall>l\<in>set ''RGBA''. l \<in> set (upper code) then []
             else [(WARNING, ''One or more channels will be lost in this swizzle operation.'')]),
            m\<lparr>color_attributes := attrs_set_data (color_attributes m) (name attr) d\<rparr>)"
proof -
  from assms(1) have len: "length code = 4" and ok: "find (\<lambda>x. x \<notin> set ''RGBA01'') (upper code) = None"
    unfolding valid_upper spec_valid_code_def by simp_all
  from ok have all: "\<forall>x\<in>set (upper code). x \<in> set ''RGBA01''"
    unfolding find_None_iff by blast
  from len have "length (upper code) = 4" by (simp add: upper_def)
  from swizzle_channels_valid [OF all this] obtain d
    where d: "swizzle_channels (data attr) (upper code) = Inr d" by blast
  show ?thesis
    using len ok d assms(2) by (simp add: swizzle_execute_def Let_def)
qed

lemma swizzle_execute_no_active:
  assumes "spec_valid_code code" "active_color m = None"
  shows "swizzle_execute code m = Inl AttributeError"
proof -
  from assms(1) have len: "length code = 4" and ok: "find (\<lambda>x. x \<notin> set ''RGBA01'') (upper code) = None"
    unfolding valid_upper spec_valid_code_def by simp_all
  then show ?thesis using assms(2) by (simp add: swizzle_execute_def Let_def)
qed

lemma upper_gr01: "upper ''gr01'' = ''GR01''"
  by (simp add: upper_def char_eq_iff_nat [of "upper_char c" for c] of_char_upper_char)

subsection \<open>Swizzling (C8)\<close>

text \<open>
  Claim C8. For every colour layer, swizzling with the code \<open>RGBA\<close> leaves every
  element's colour unchanged. For every code whose four characters are keys of the source
  table, each element's new colour is read out of the six-slot vector
  \<open>(r, g, b, a, 0, 1)\<close> built from that same element's old colour, at the four mapped
  indices: the result is the old array mapped element by element, so no element's result
  depends on another element or on the order of the assignments.
\<close>

theorem swizzle_channels_pointwise:
  "swizzle_channels d ''RGBA'' = Inr d \<and>
   (swizzle_source s 0 = Inr nr \<and> swizzle_source s 1 = Inr ng \<and>
    swizzle_source s 2 = Inr nb \<and> swizzle_source s 3 = Inr na \<longrightarrow>
      swizzle_channels d s =
        Inr (map (\<lambda>c. \<lparr>red = [red c, green c, blue c, alpha c, 0, 1] ! nr,
                        green = [red c, green c, blue c, alpha c, 0, 1] ! ng,
                        blue = [red c, green c, blue c, alpha c, 0, 1] ! nb,
                        alpha = [red c, green c, blue c, alpha c, 0, 1] ! na\<rparr>) d))"
proof (intro conjI impI)
  show "swizzle_channels d ''RGBA'' = Inr d"
    by (rule swizzle_RGBA)
next
  assume "swizzle_source s 0 = Inr nr \<and> swizzle_source s 1 = Inr ng \<and>
    swizzle_source s 2 = Inr nb \<and> swizzle_source s 3 = Inr na"
  then have "swizzle_channels d s = Inr (map (swizzle_color nr ng nb na) d)"
    using swizzle_channels_map [of s nr ng nb na d] by blast
  then show "swizzle_channels d s =
        Inr (map (\<lambda>c. \<lparr>red = [red c, green c, blue c, alpha c, 0, 1] ! nr,
                        green = [red c, green c, blue c, alpha c, 0, 1] ! ng,
                        blue = [red c, green c, blue c, alpha c, 0, 1] ! nb,
                        alpha = [red c, green c, blue c, alpha c, 0, 1] ! na\<rparr>) d)"
    by (simp add: swizzle_color_def [abs_def] Let_def)
qed

theorem swizzle_channels_pointwise_witness:
  "swizzle_source ''BGR1'' 0 = Inr 2 \<and> swizzle_source ''BGR1'' 1 = Inr 1 \<and>
   swizzle_source ''BGR1'' 2 = Inr 0 \<and> swizzle_source ''BGR1'' 3 = Inr 5 \<and>
   swizzle_channels
     [\<lparr>red = 1/4, green = 1/2, blue = 3/4, alpha = 0\<rparr>,
      \<lparr>red = 1, green = 0, blue = 1/8, alpha = 1/2\<rparr>] ''BGR1''
   = Inr [\<lparr>red = 3/4, green = 1/2, blue = 1/4, alpha = 1\<rparr>,
          \<lparr>red = 1/8, green = 0, blue = 1, alpha = 1\<rparr>]"
  using swizzle_channels_pointwise
    [of "[\<lparr>red = 1/4, green = 1/2, blue = 3/4, alpha = 0\<rparr>,
          \<lparr>red = 1, green = 0, blue = 1/8, alpha = 1/2\<rparr>]" "''BGR1''" 2 1 0 5]
  by (simp add: swizzle_source_def swizzle_map_def)

subsection \<open>Validation of the swizzle code (C2)\<close>

text \<open>
  Claim C2. For every swizzle code, the swizzle command is cancelled with the single
  report \<open>ERROR_INVALID_INPUT\<close> and the fixed message, and leaves the mesh (so every
  element of the active layer) as it was, exactly when the code is not four characters
  long or has a character outside R, G, B, A, 0, 1 in either case. For a valid code and an
  active layer the command finishes with the layer swizzled by the upper-cased code, and
  its only report is the warning when one of the letters R, G, B, A is absent from the
  code, and nothing when all four are present.
\<close>

theorem swizzle_execute_validation:
  "(swizzle_execute code m =
      Inr (CANCELLED, [(ERROR_INVALID_INPUT, invalid_input_err_msg)], m)
    \<longleftrightarrow> \<not> spec_valid_code code) \<and>
   (spec_valid_code code \<and> active_color m = Some attr \<longrightarrow>
      (\<exists>d. swizzle_channels (data attr) (upper code) = Inr d \<and>
         swizzle_execute code m =
           Inr (FINISHED,
                (if \<forall>l\<in>set ''RGBA''. l \<in> set (upper code) then []
                 else [(WARNING,
                        ''One or more channels will be lost in this swizzle operation.'')]),
                m\<lparr>color_attributes :=
                     attrs_set_data (color_attributes m) (name attr) d\<rparr>)))"
proof (intro conjI impI iffI)
  assume cancelled: "swizzle_execute code m =
      Inr (CANCELLED, [(ERROR_INVALID_INPUT, invalid_input_err_msg)], m)"
  show "\<not> spec_valid_code code"
  proof
    assume valid: "spec_valid_code code"
    show False
    proof (cases "active_color m")
      case None
      from swizzle_execute_no_active [OF valid None] cancelled show False by simp
    next
      case (Some a)
      from swizzle_execute_valid [OF valid Some] cancelled show False by auto
    qed
  qed
next
  assume "\<not> spec_valid_code code"
  then show "swizzle_execute code m =
      Inr (CANCELLED, [(ERROR_INVALID_INPUT, invalid_input_err_msg)], m)"
    by (rule swizzle_execute_invalid)
next
  assume "spec_valid_code code \<and> active_color m = Some attr"
  then show "\<exists>d. swizzle_channels (data attr) (upper code) = Inr d \<and>
         swizzle_execute code m =
           Inr (FINISHED,
                (if \<forall>l\<in>set ''RGBA''. l \<in> set (upper code) then []
                 else [(WARNING,
                        ''One or more channels will be lost in this swizzle operation.'')]),
                m\<lparr>color_attributes :=
                     attrs_set_data (color_attributes m) (name attr) d\<rparr>)"
    using swizzle_execute_valid [of code m attr] by blast
qed

theorem swizzle_execute_validation_witness:
  "\<not> spec_valid_code ''RGBX'' \<and>
   swizzle_execute ''RGBX''
     (example_mesh [example_layer ''Col'' [\<lparr>red = 1/4, green = 1/2, blue = 3/4, alpha = 0\<rparr>]] ''Col'')
   = Inr (CANCELLED, [(ERROR_INVALID_INPUT, invalid_input_err_msg)],
       example_mesh [example_layer ''Col'' [\<lparr>red = 1/4, green = 1/2, blue = 3/4, alpha = 0\<rparr>]] ''Col'') \<and>
   spec_valid_code ''gr01'' \<and>
   active_color
     (example_mesh [example_layer ''Col'' [\<lparr>red = 1/4, green = 1/2, blue = 3/4, alpha = 0\<rparr>]] ''Col'')
   = Some (example_layer ''Col'' [\<lparr>red = 1/4, green = 1/2, blue = 3/4, alpha = 0\<rparr>]) \<and>
   swizzle_execute ''gr01''
     (example_mesh [example_layer ''Col'' [\<lparr>red = 1/4, green = 1/2, blue = 3/4, alpha = 0\<rparr>]] ''Col'')
   = Inr (FINISHED,
       [(WARNING, ''One or more channels will be lost in this swizzle operation.'')],
       example_mesh [example_layer ''Col'' [\<lparr>red = 1/2, green = 1/4, blue = 0, alpha = 1\<rparr>]] ''Col'')"
  using swizzle_execute_validation
      [of "''RGBX''"
        "example_mesh [example_layer ''Col'' [\<lparr>red = 1/4, green = 1/2, blue = 3/4, alpha = 0\<rparr>]] ''Col''"]
    swizzle_execute_validation
      [of "''gr01''"
        "example_mesh [example_layer ''Col'' [\<lparr>red = 1/4, green = 1/2, blue = 3/4, alpha = 0\<rparr>]] ''Col''"
        "example_layer ''Col'' [\<lparr>red = 1/4, green = 1/2, blue = 3/4, alpha = 0\<rparr>]"]
  by (simp add: spec_valid_code_def example_mesh_def example_layer_def active_color_def
      attrs_get_def upper_gr01 swizzle_channels_def swizzle_source_def
      swizzle_map_def swizzle_color_def)

subsection \<open>Copying to and from a mask\<close>













lemma attrs_set_data_append_new:
  "\<not> attrs_contains as n \<Longrightarrow> name x = n \<Longrightarrow> attrs_set_data (as @ [x]) n d = as @ [x\<lparr>data := d\<rparr>]"
  unfolding attrs_contains_def by (induction as) (auto split: if_splits)












subsection \<open>Creating and applying a mask (C1)\<close>


lemma not_mask_Col: "\<not> attr_name_is_mask ''Col''" "\<not> attr_name_is_mask ''Base''"
  by (simp_all add: attr_name_is_mask_def endswith_def)




text \<open>
  Where the host does not create the layer under the requested name, the operators go
  another way, which the amended claim leaves aside. A host that renames the new layer:
  create-mask finishes with the layer \<open>Col__R.001\<close> active, apply-mask is then cancelled
  because that name is not a mask name, and the layer stays. A host that refuses the
  name: \<open>new\<close> returns \<^verbatim>\<open>None\<close> and the copy raises on it.
\<close>

lemma not_mask_renamed: "\<not> attr_name_is_mask ''Col__R.001''"
  by (simp add: attr_name_is_mask_def endswith_def)

lemma renaming_host_keeps_mask:
  "create_mask_execute (renaming_new [\<lparr>red = 0, green = 0, blue = 0, alpha = 0\<rparr>]) ''R''
       (example_mesh [example_layer ''Col'' [\<lparr>red = 1/4, green = 1/2, blue = 3/4, alpha = 1/8\<rparr>]] ''Col'')
     = Inr (FINISHED, [], set ''R'',
         example_mesh [example_layer ''Col'' [\<lparr>red = 1/4, green = 1/2, blue = 3/4, alpha = 1/8\<rparr>],
                       example_layer ''Col__R.001'' [\<lparr>red = 1/4, green = 0, blue = 0, alpha = 1\<rparr>]]
           ''Col__R.001'')"
  "apply_mask_execute first_active
       (example_mesh [example_layer ''Col'' [\<lparr>red = 1/4, green = 1/2, blue = 3/4, alpha = 1/8\<rparr>],
                      example_layer ''Col__R.001'' [\<lparr>red = 1/4, green = 0, blue = 0, alpha = 1\<rparr>]]
          ''Col__R.001'')
     = Inr (CANCELLED,
         [(ERROR_INVALID_INPUT, ''Active vertex color attribute '' @ apostrophe @
             ''Col__R.001'' @ apostrophe @ '' does not appear to be a mask.'')],
         example_mesh [example_layer ''Col'' [\<lparr>red = 1/4, green = 1/2, blue = 3/4, alpha = 1/8\<rparr>],
                       example_layer ''Col__R.001'' [\<lparr>red = 1/4, green = 0, blue = 0, alpha = 1\<rparr>]]
           ''Col__R.001'')"
proof -
  show "create_mask_execute (renaming_new [\<lparr>red = 0, green = 0, blue = 0, alpha = 0\<rparr>]) ''R''
       (example_mesh [example_layer ''Col'' [\<lparr>red = 1/4, green = 1/2, blue = 3/4, alpha = 1/8\<rparr>]] ''Col'')
     = Inr (FINISHED, [], set ''R'',
         example_mesh [example_layer ''Col'' [\<lparr>red = 1/4, green = 1/2, blue = 3/4, alpha = 1/8\<rparr>],
                       example_layer ''Col__R.001'' [\<lparr>red = 1/4, green = 0, blue = 0, alpha = 1\<rparr>]]
           ''Col__R.001'')"
    by (simp add: create_mask_execute_def make_channel_str_def active_color_def example_mesh_def
        example_layer_def attrs_get_def attrs_contains_def base_of_active_def not_mask_Col
        create_color_channel_mask_def renaming_new_def copy_to_mask_def Let_def)
  show "apply_mask_execute first_active
       (example_mesh [example_layer ''Col'' [\<lparr>red = 1/4, green = 1/2, blue = 3/4, alpha = 1/8\<rparr>],
                      example_layer ''Col__R.001'' [\<lparr>red = 1/4, green = 0, blue = 0, alpha = 1\<rparr>]]
          ''Col__R.001'')
     = Inr (CANCELLED,
         [(ERROR_INVALID_INPUT, ''Active vertex color attribute '' @ apostrophe @
             ''Col__R.001'' @ apostrophe @ '' does not appear to be a mask.'')],
         example_mesh [example_layer ''Col'' [\<lparr>red = 1/4, green = 1/2, blue = 3/4, alpha = 1/8\<rparr>],
                       example_layer ''Col__R.001'' [\<lparr>red = 1/4, green = 0, blue = 0, alpha = 1\<rparr>]]
           ''Col__R.001'')"
    by (simp add: apply_mask_execute_def active_color_def example_mesh_def
        example_layer_def attrs_get_def not_mask_renamed Let_def)
qed

lemma refusing_host_raises:
  "create_mask_execute refusing_new ''R''
       (example_mesh [example_layer ''Col'' [\<lparr>red = 1/4, green = 1/2, blue = 3/4, alpha = 1/8\<rparr>]] ''Col'')
     = Inl AttributeError"
  by (simp add: create_mask_execute_def make_channel_str_def active_color_def example_mesh_def
      example_layer_def attrs_get_def attrs_contains_def base_of_active_def not_mask_Col
      create_color_channel_mask_def refusing_new_def Let_def)

subsection \<open>The loop over the vertices of the hit face\<close>

lemma py_getitem_nat: "k < length xs \<Longrightarrow> py_getitem xs (int k) = Inr (xs ! k)"
  by (simp add: py_getitem_def)

lemma float_less_Fin: "float_less d b \<Longrightarrow> \<exists>x. d = Fin x"
  by (cases d; cases b) simp_all

lemma float_less_trans: "float_less (Fin x) (Fin y) \<Longrightarrow> float_less (Fin y) b \<Longrightarrow> float_less (Fin x) b"
  by (cases b) simp_all

lemma float_less_not:
  "float_less (Fin x) b \<Longrightarrow> \<not> float_less (Fin y) b \<Longrightarrow> x < y"
  by (cases b) simp_all

lemma spec_first_least_0:
  "\<forall>d\<in>set ds. \<not> float_less d (Fin x) \<Longrightarrow> spec_first_least (Fin x # ds) 0"
proof -
  assume a: "\<forall>d\<in>set ds. \<not> float_less d (Fin x)"
  have "case d of Fin y \<Rightarrow> x \<le> y | PosInf \<Rightarrow> True | NaN \<Rightarrow> True" if "d \<in> set ds" for d
    using a that by (cases d) auto
  then show ?thesis by (simp add: spec_first_least_def)
qed

lemma spec_first_least_Suc:
  assumes "spec_first_least ds k" "\<forall>y. d = Fin y \<longrightarrow> float_less (ds ! k) (Fin y)"
  shows "spec_first_least (d # ds) (Suc k)"
proof -
  from assms(1) obtain x where x: "ds ! k = Fin x" "k < length ds"
    and all: "\<forall>e\<in>set ds. case e of Fin y \<Rightarrow> x \<le> y | PosInf \<Rightarrow> True | NaN \<Rightarrow> True"
    and before: "\<forall>e\<in>set (take k ds). case e of Fin y \<Rightarrow> x < y | PosInf \<Rightarrow> True | NaN \<Rightarrow> True"
    by (cases "ds ! k") (simp_all add: spec_first_least_def)
  from assms(2) x(1) have d: "case d of Fin y \<Rightarrow> x < y | PosInf \<Rightarrow> True | NaN \<Rightarrow> True"
    by (cases d) simp_all
  then have d': "case d of Fin y \<Rightarrow> x \<le> y | PosInf \<Rightarrow> True | NaN \<Rightarrow> True"
    by (cases d) simp_all
  from x all before d d' show ?thesis
    by (simp add: spec_first_least_def)
qed

lemma closest_loop_inv:
  assumes "\<forall>v\<in>set fv. v < length verts"
  shows "\<exists>b' c'. closest_loop hm verts hit i fv (b, c) = Inr (b', c') \<and>
     ((\<forall>x\<in>set (map (\<lambda>v. hm (verts ! v) hit) fv). \<not> float_less x b)
        \<longrightarrow> b' = b \<and> c' = c) \<and>
     (\<not> (\<forall>x\<in>set (map (\<lambda>v. hm (verts ! v) hit) fv). \<not> float_less x b)
        \<longrightarrow> (\<exists>k. spec_first_least (map (\<lambda>v. hm (verts ! v) hit) fv) k \<and>
             float_less (map (\<lambda>v. hm (verts ! v) hit) fv ! k) b \<and>
             b' = map (\<lambda>v. hm (verts ! v) hit) fv ! k \<and>
             c' = int (i + k)))"
  using assms
proof (induction fv arbitrary: i b c)
  case Nil
  then show ?case by simp
next
  case (Cons v rest)
  let ?dist = "\<lambda>v. hm (verts ! v) hit"
  let ?d0 = "?dist v"
  let ?ds = "map ?dist rest"
  from Cons.prems have v: "v < length verts" and rest: "\<forall>v\<in>set rest. v < length verts"
    by simp_all
  have get: "py_getitem verts (int v) = Inr (verts ! v)"
    by (rule py_getitem_nat [OF v])
  show ?case
  proof (cases "float_less ?d0 b")
    case True
    then obtain x0 where x0: "?d0 = Fin x0"
      using float_less_Fin by blast
    from Cons.IH [OF rest, of "Suc i" ?d0 "int i"] obtain b' c' where
      step: "closest_loop hm verts hit (Suc i) rest (?d0, int i) = Inr (b', c')" and
      inv1: "(\<forall>x\<in>set ?ds. \<not> float_less x ?d0) \<longrightarrow> b' = ?d0 \<and> c' = int i" and
      inv2: "\<not> (\<forall>x\<in>set ?ds. \<not> float_less x ?d0) \<longrightarrow>
            (\<exists>k. spec_first_least ?ds k \<and> float_less (?ds ! k) ?d0 \<and>
                   b' = ?ds ! k \<and> c' = int (Suc i + k))"
      by blast
    have eq: "closest_loop hm verts hit i (v # rest) (b, c) = Inr (b', c')"
      using get True step by simp
    have some: "\<not> (\<forall>x\<in>set (map ?dist (v # rest)). \<not> float_less x b)"
      using True by simp
    have "\<exists>k. spec_first_least (map ?dist (v # rest)) k \<and>
             float_less (map ?dist (v # rest) ! k) b \<and>
             b' = map ?dist (v # rest) ! k \<and> c' = int (i + k)"
    proof (cases "\<forall>x\<in>set ?ds. \<not> float_less x ?d0")
      case all: True
      with inv1 have "b' = ?d0" "c' = int i" by blast+
      moreover from all x0 have "spec_first_least (?d0 # ?ds) 0"
        using spec_first_least_0 [of ?ds x0] by simp
      ultimately show ?thesis using True by (intro exI [of _ 0]) simp
    next
      case False
      with inv2 obtain k where k: "spec_first_least ?ds k" "float_less (?ds ! k) ?d0"
        "b' = ?ds ! k" "c' = int (Suc i + k)"
        by blast
      from k(2) obtain xk where xk: "?ds ! k = Fin xk"
        using float_less_Fin by blast
      from k(2) x0 have "\<forall>y. ?d0 = Fin y \<longrightarrow> float_less (?ds ! k) (Fin y)"
        by simp
      with k(1) have "spec_first_least (?d0 # ?ds) (Suc k)"
        by (rule spec_first_least_Suc)
      moreover from k(2) True xk x0 have "float_less (?ds ! k) b"
        using float_less_trans [of xk x0 b] by simp
      ultimately show ?thesis using k(3,4) by (intro exI [of _ "Suc k"]) simp
    qed
    with eq some show ?thesis by blast
  next
    case False
    from Cons.IH [OF rest, of "Suc i" b c] obtain b' c' where
      step: "closest_loop hm verts hit (Suc i) rest (b, c) = Inr (b', c')" and
      inv1: "(\<forall>x\<in>set ?ds. \<not> float_less x b) \<longrightarrow> b' = b \<and> c' = c" and
      inv2: "\<not> (\<forall>x\<in>set ?ds. \<not> float_less x b) \<longrightarrow>
            (\<exists>k. spec_first_least ?ds k \<and> float_less (?ds ! k) b \<and>
                   b' = ?ds ! k \<and> c' = int (Suc i + k))"
      by blast
    have eq: "closest_loop hm verts hit i (v # rest) (b, c) = Inr (b', c')"
      using get False step by simp
    show ?thesis
    proof (cases "\<forall>x\<in>set ?ds. \<not> float_less x b")
      case True
      with inv1 have "b' = b" "c' = c" by blast+
      moreover from True False
      have "\<forall>x\<in>set (map ?dist (v # rest)). \<not> float_less x b" by simp
      ultimately show ?thesis using eq by blast
    next
      case some: False
      with inv2 obtain k where k: "spec_first_least ?ds k" "float_less (?ds ! k) b"
        "b' = ?ds ! k" "c' = int (Suc i + k)"
        by blast
      from k(2) obtain xk where xk: "?ds ! k = Fin xk"
        using float_less_Fin by blast
      have "\<forall>y. ?d0 = Fin y \<longrightarrow> float_less (?ds ! k) (Fin y)"
      proof (intro allI impI)
        fix y assume y: "?d0 = Fin y"
        from k(2) False xk y have "xk < y"
          using float_less_not [of xk b y] by simp
        with xk show "float_less (?ds ! k) (Fin y)" by simp
      qed
      with k(1) have "spec_first_least (?d0 # ?ds) (Suc k)"
        by (rule spec_first_least_Suc)
      with k(2,3,4) have "\<exists>k. spec_first_least (map ?dist (v # rest)) k \<and>
             float_less (map ?dist (v # rest) ! k) b \<and>
             b' = map ?dist (v # rest) ! k \<and> c' = int (i + k)"
        by (intro exI [of _ "Suc k"]) simp
      moreover have "\<not> (\<forall>x\<in>set (map ?dist (v # rest)). \<not> float_less x b)"
        using some by simp
      ultimately show ?thesis using eq by blast
    qed
  qed
qed

lemma closest_loop_start:
  assumes "\<forall>v\<in>set fv. v < length verts"
    and "\<exists>v\<in>set fv. \<exists>x. hm (verts ! v) hit = Fin x"
  shows "\<exists>k. spec_first_least (map (\<lambda>v. hm (verts ! v) hit) fv) k \<and>
     closest_loop hm verts hit 0 fv (PosInf, - 1) =
       Inr (map (\<lambda>v. hm (verts ! v) hit) fv ! k, int k)"
proof -
  from assms(2) obtain v x where "v \<in> set fv" "hm (verts ! v) hit = Fin x" by blast
  then have "Fin x \<in> set (map (\<lambda>v. hm (verts ! v) hit) fv)"
    by (metis (mono_tags, lifting) image_eqI list.set_map)
  then have "\<exists>d\<in>set (map (\<lambda>v. hm (verts ! v) hit) fv). float_less d PosInf"
    by (intro bexI [of _ "Fin x"]) simp_all
  then have "\<not> (\<forall>x\<in>set (map (\<lambda>v. hm (verts ! v) hit) fv). \<not> float_less x PosInf)"
    by blast
  with closest_loop_inv [OF assms(1), of hm hit 0 PosInf "- 1"] show ?thesis
    by auto
qed

lemma closest_loop_none_finite:
  assumes "\<forall>v\<in>set fv. v < length verts"
    and "\<forall>v\<in>set fv. \<forall>x. hm (verts ! v) hit \<noteq> Fin x"
  shows "closest_loop hm verts hit 0 fv (PosInf, - 1) = Inr (PosInf, - 1)"
proof -
  have "\<forall>d\<in>set (map (\<lambda>v. hm (verts ! v) hit) fv). \<not> float_less d PosInf"
    using assms(2) float_less_Fin by fastforce
  with closest_loop_inv [OF assms(1), of hm hit 0 PosInf "- 1"] show ?thesis
    by auto
qed

lemma spec_first_least_exact:
  "spec_first_least (map Fin es) k \<Longrightarrow> spec_first_min es k"
  by (auto simp: spec_first_least_def spec_first_min_def take_map)

lemma spec_first_least_example: "spec_first_least [Fin 2, Fin (1/2), Fin (17/10)] k \<Longrightarrow> k = 1"
proof -
  assume a: "spec_first_least [Fin 2, Fin (1/2), Fin (17/10)] k"
  then have "k < 3" by (simp add: spec_first_least_def)
  then consider "k = 0" | "k = 1" | "k = 2" by linarith
  then show "k = 1"
  proof cases
    case 1 with a show ?thesis by (simp add: spec_first_least_def)
  next
    case 2 then show ?thesis .
  next
    case 3 with a show ?thesis by (simp add: spec_first_least_def)
  qed
qed

lemma pick_at_index:
  assumes act: "active_color m = Some color_attr"
    and face: "py_getitem (polygons m) hit_face_index = Inr face"
    and ne: "vertices face \<noteq> []"
    and loop: "closest_loop hm (mesh_vertices m) hit_loc 0 (vertices face) (PosInf, - 1) =
       Inr (b, idx)"
  shows "(domain color_attr = ''POINT'' \<and> length (data color_attr) = length (mesh_vertices m) \<and>
      py_getitem (vertices face) idx = Inr vi \<and> vi < length (data color_attr) \<longrightarrow>
        pick_vertex_color_from_rayhit hm m hit_loc hit_face_index =
          Inr (Some (data color_attr ! vi))) \<and>
     (domain color_attr = ''CORNER'' \<and> length (data color_attr) = length (loops m) \<and>
      py_getitem (loop_indices face) idx = Inr li \<and> li < length (data color_attr) \<longrightarrow>
        pick_vertex_color_from_rayhit hm m hit_loc hit_face_index =
          Inr (Some (data color_attr ! li)))"
  unfolding pick_vertex_color_from_rayhit_def
  using act face ne loop by (simp add: py_getitem_nat)

subsection \<open>The closest vertex of the hit face (C6)\<close>

text \<open>
  Claim C6, as amended. For every hit face (of vertices of the mesh) and every hit point
  such that the distance the host computes for at least one face vertex is finite, the
  loop selects the local index \<open>k\<close> of the first face vertex whose computed distance is
  the least of the finite computed distances: no face vertex has a smaller one, and every
  face vertex before \<open>k\<close> has a strictly larger one. Where the host computes every
  distance exactly, this is the face vertex of minimum Euclidean distance to the hit
  point, a tie going to the lowest local index; for the computed distances 2.0, 0.5, 1.7
  it is local index 1. The colour returned is read at the mesh vertex index
  \<open>face.vertices[k]\<close> for a layer of domain POINT, and at the face-loop index
  \<open>face.loop_indices[k]\<close> for a layer of domain CORNER (the layer having one element per
  vertex, respectively per loop).
\<close>

theorem closest_vertex_selected:
  assumes act: "active_color m = Some color_attr"
    and face: "py_getitem (polygons m) hit_face_index = Inr face"
    and rng: "\<forall>v\<in>set (vertices face). v < length (mesh_vertices m)"
    and fin: "\<exists>v\<in>set (vertices face). \<exists>x. host_magnitude (mesh_vertices m ! v) hit_loc = Fin x"
  shows "\<exists>k. spec_first_least
           (map (\<lambda>v. host_magnitude (mesh_vertices m ! v) hit_loc) (vertices face)) k \<and>
     ((\<forall>v\<in>set (vertices face).
         host_magnitude (mesh_vertices m ! v) hit_loc =
           Fin (spec_euclidean (mesh_vertices m ! v) hit_loc)) \<longrightarrow>
        spec_first_min
          (map (\<lambda>v. spec_euclidean (mesh_vertices m ! v) hit_loc) (vertices face)) k) \<and>
     (map (\<lambda>v. host_magnitude (mesh_vertices m ! v) hit_loc) (vertices face)
        = [Fin 2, Fin (1/2), Fin (17/10)] \<longrightarrow> k = 1) \<and>
     closest_loop host_magnitude (mesh_vertices m) hit_loc 0 (vertices face) (PosInf, - 1) =
       Inr (map (\<lambda>v. host_magnitude (mesh_vertices m ! v) hit_loc) (vertices face) ! k,
            int k) \<and>
     (domain color_attr = ''POINT'' \<and> length (data color_attr) = length (mesh_vertices m) \<longrightarrow>
        pick_vertex_color_from_rayhit host_magnitude m hit_loc hit_face_index =
          Inr (Some (data color_attr ! (vertices face ! k)))) \<and>
     (domain color_attr = ''CORNER'' \<and> length (data color_attr) = length (loops m) \<and>
      length (loop_indices face) = length (vertices face) \<and>
      (\<forall>l\<in>set (loop_indices face). l < length (loops m)) \<longrightarrow>
        pick_vertex_color_from_rayhit host_magnitude m hit_loc hit_face_index =
          Inr (Some (data color_attr ! (loop_indices face ! k))))"
proof -
  let ?ds = "map (\<lambda>v. host_magnitude (mesh_vertices m ! v) hit_loc) (vertices face)"
  let ?es = "map (\<lambda>v. spec_euclidean (mesh_vertices m ! v) hit_loc) (vertices face)"
  from fin have ne: "vertices face \<noteq> []" by auto
  from closest_loop_start [where hm = host_magnitude and verts = "mesh_vertices m"
      and hit = hit_loc and fv = "vertices face", OF rng fin] obtain k where
    k: "spec_first_least ?ds k" and
    loop: "closest_loop host_magnitude (mesh_vertices m) hit_loc 0 (vertices face) (PosInf, - 1) =
       Inr (?ds ! k, int k)"
    by blast
  from k have klen: "k < length (vertices face)"
    by (simp add: spec_first_least_def)
  have exact: "spec_first_min ?es k"
    if "\<forall>v\<in>set (vertices face).
         host_magnitude (mesh_vertices m ! v) hit_loc =
           Fin (spec_euclidean (mesh_vertices m ! v) hit_loc)"
  proof -
    from that have "?ds = map Fin ?es" by simp
    with k show ?thesis using spec_first_least_exact by metis
  qed
  have ex: "?ds = [Fin 2, Fin (1/2), Fin (17/10)] \<longrightarrow> k = 1"
    using k spec_first_least_example by metis
  have point: "pick_vertex_color_from_rayhit host_magnitude m hit_loc hit_face_index =
      Inr (Some (data color_attr ! (vertices face ! k)))"
    if "domain color_attr = ''POINT''" "length (data color_attr) = length (mesh_vertices m)"
  proof -
    from klen rng have "vertices face ! k < length (data color_attr)"
      using that(2) by simp
    with pick_at_index [OF act face ne loop, of "vertices face ! k"] that klen
    show ?thesis by (simp add: py_getitem_nat)
  qed
  have corner: "pick_vertex_color_from_rayhit host_magnitude m hit_loc hit_face_index =
      Inr (Some (data color_attr ! (loop_indices face ! k)))"
    if "domain color_attr = ''CORNER''" "length (data color_attr) = length (loops m)"
      "length (loop_indices face) = length (vertices face)"
      "\<forall>l\<in>set (loop_indices face). l < length (loops m)"
  proof -
    from klen that(3) have kl: "k < length (loop_indices face)" by simp
    with that(2,4) have "loop_indices face ! k < length (data color_attr)" by simp
    with pick_at_index [OF act face ne loop, of _ "loop_indices face ! k"] that(1,2) kl
    show ?thesis by (simp add: py_getitem_nat)
  qed
  from k exact ex loop point corner show ?thesis by blast
qed

lemma sqrt_of_square: "0 \<le> r \<Longrightarrow> r * r = x \<Longrightarrow> sqrt x = r"
  by (rule real_sqrt_unique) (simp_all add: power2_eq_square)

lemma example_tri_euclidean:
  "spec_euclidean (3, 1, 1) (1, 1, 1) = 2"
  "spec_euclidean (7/10, 7/5, 1) (1, 1, 1) = 1/2"
  "spec_euclidean (1/5, - 1/2, 1) (1, 1, 1) = 17/10"
proof -
  have a: "sqrt 4 = 2" by (rule sqrt_of_square) simp_all
  have b: "sqrt (1/4) = 1/2" by (rule sqrt_of_square) simp_all
  have c: "sqrt (289/100) = 17/10" by (rule sqrt_of_square) simp_all
  have "(3 - 1) * (3 - 1) + (1 - 1) * (1 - 1) + (1 - 1) * (1 - 1) = (4::real)"
    by simp
  then have "spec_euclidean (3, 1, 1) (1, 1, 1) = sqrt 4"
    by (simp only: spec_euclidean_def prod.case)
  from this a show "spec_euclidean (3, 1, 1) (1, 1, 1) = 2"
    by (rule trans)
  have "(7/10 - 1) * (7/10 - 1) + (7/5 - 1) * (7/5 - 1) + (1 - 1) * (1 - 1) = (1/4::real)"
    by simp
  then have "spec_euclidean (7/10, 7/5, 1) (1, 1, 1) = sqrt (1/4)"
    by (simp only: spec_euclidean_def prod.case)
  from this b show "spec_euclidean (7/10, 7/5, 1) (1, 1, 1) = 1/2"
    by (rule trans)
  have "(1/5 - 1) * (1/5 - 1) + (- 1/2 - 1) * (- 1/2 - 1) + (1 - 1) * (1 - 1) = (289/100::real)"
    by simp
  then have "spec_euclidean (1/5, - 1/2, 1) (1, 1, 1) = sqrt (289/100)"
    by (simp only: spec_euclidean_def prod.case)
  from this c show "spec_euclidean (1/5, - 1/2, 1) (1, 1, 1) = 17/10"
    by (rule trans)
qed

lemma example_tri_euclidean_normal:
  "spec_euclidean (1/5, - (1/2), 1) (1, 1, 1) = 17/10"
  using example_tri_euclidean(3) by simp

lemma example_tri_distances:
  "map (\<lambda>v. exact_magnitude (mesh_vertices (example_tri_mesh l) ! v) (1, 1, 1)) [1, 0, 2]
     = [Fin 2, Fin (1/2), Fin (17/10)]"
  by (simp add: example_tri_mesh_def exact_magnitude_def example_tri_euclidean
      example_tri_euclidean_normal)

lemma example_tri_active: "active_color (example_tri_mesh l) = Some l"
  by (simp add: example_tri_mesh_def active_color_def attrs_get_def)

lemma example_tri_faces:
  "py_getitem (polygons (example_tri_mesh l)) 0 = Inr \<lparr>vertices = [], loop_indices = []\<rparr>"
  "py_getitem (polygons (example_tri_mesh l)) 1 = Inr \<lparr>vertices = [1, 0, 2], loop_indices = [0, 1, 2]\<rparr>"
  by (simp_all add: example_tri_mesh_def py_getitem_def)

theorem closest_vertex_selected_witness:
  "active_color (example_tri_mesh (example_tri_layer ''POINT'')) = Some (example_tri_layer ''POINT'') \<and>
   py_getitem (polygons (example_tri_mesh (example_tri_layer ''POINT''))) 1 =
     Inr \<lparr>vertices = [1, 0, 2], loop_indices = [0, 1, 2]\<rparr> \<and>
   map (\<lambda>v. exact_magnitude (mesh_vertices (example_tri_mesh (example_tri_layer ''POINT'')) ! v)
          (1, 1, 1)) [1, 0, 2] = [Fin 2, Fin (1/2), Fin (17/10)] \<and>
   spec_euclidean (3, 1, 1) (1, 1, 1) = 2 \<and>
   spec_euclidean (7/10, 7/5, 1) (1, 1, 1) = 1/2 \<and>
   spec_euclidean (1/5, - 1/2, 1) (1, 1, 1) = 17/10 \<and>
   pick_vertex_color_from_rayhit exact_magnitude
       (example_tri_mesh (example_tri_layer ''POINT'')) (1, 1, 1) 1 =
     Inr (Some \<lparr>red = 1, green = 0, blue = 0, alpha = 1\<rparr>) \<and>
   pick_vertex_color_from_rayhit exact_magnitude
       (example_tri_mesh (example_tri_layer ''CORNER'')) (1, 1, 1) 1 =
     Inr (Some \<lparr>red = 0, green = 1, blue = 0, alpha = 1\<rparr>)"
proof -
  let ?f = "\<lparr>vertices = [1, 0, 2], loop_indices = [0, 1, 2]\<rparr>"
  have rng: "\<forall>v\<in>set (vertices ?f). v < length (mesh_vertices (example_tri_mesh l))" for l
    by (simp add: example_tri_mesh_def)
  have fin: "\<exists>v\<in>set (vertices ?f). \<exists>x.
      exact_magnitude (mesh_vertices (example_tri_mesh l) ! v) (1, 1, 1) = Fin x" for l
    by (auto simp: exact_magnitude_def)
  have p: "pick_vertex_color_from_rayhit exact_magnitude
       (example_tri_mesh (example_tri_layer ''POINT'')) (1, 1, 1) 1 =
     Inr (Some \<lparr>red = 1, green = 0, blue = 0, alpha = 1\<rparr>)"
    using closest_vertex_selected
        [where host_magnitude = exact_magnitude, OF example_tri_active example_tri_faces(2) rng fin,
          of "example_tri_layer ''POINT''"]
      example_tri_distances [of "example_tri_layer ''POINT''"]
    by (auto simp: example_tri_layer_def example_tri_mesh_def)
  have c: "pick_vertex_color_from_rayhit exact_magnitude
       (example_tri_mesh (example_tri_layer ''CORNER'')) (1, 1, 1) 1 =
     Inr (Some \<lparr>red = 0, green = 1, blue = 0, alpha = 1\<rparr>)"
    using closest_vertex_selected
        [where host_magnitude = exact_magnitude, OF example_tri_active example_tri_faces(2) rng fin,
          of "example_tri_layer ''CORNER''"]
      example_tri_distances [of "example_tri_layer ''CORNER''"]
    by (auto simp: example_tri_layer_def example_tri_mesh_def)
  from example_tri_active example_tri_faces(2) example_tri_distances example_tri_euclidean p c
  show ?thesis
    by (intro conjI)
qed

lemma example_huge_active: "active_color (example_huge_mesh l) = Some l"
  by (simp add: example_huge_mesh_def active_color_def attrs_get_def)

lemma example_huge_face:
  "py_getitem (polygons (example_huge_mesh l)) 0 = Inr \<lparr>vertices = [0, 1, 2], loop_indices = [0, 1, 2]\<rparr>"
  by (simp add: example_huge_mesh_def py_getitem_def)

lemma example_huge_overflow:
  "overflowing_magnitude (10 ^ 20, 0, 0) example_huge_hit = PosInf"
  "overflowing_magnitude (0, 2 * 10 ^ 20, 0) example_huge_hit = PosInf"
  "overflowing_magnitude (0, 0, 3 * 10 ^ 20) example_huge_hit = PosInf"
  by (simp_all add: overflowing_magnitude_def example_huge_hit_def)

lemma example_huge_overflow_normal:
  "overflowing_magnitude (100000000000000000000, 0, 0) example_huge_hit = PosInf"
  "overflowing_magnitude (0, 200000000000000000000, 0) example_huge_hit = PosInf"
  "overflowing_magnitude (0, 0, 300000000000000000000) example_huge_hit = PosInf"
  using example_huge_overflow by simp_all

lemma example_huge_loop:
  "closest_loop overflowing_magnitude (mesh_vertices (example_huge_mesh l)) example_huge_hit 0
     [0, 1, 2] (PosInf, - 1) = Inr (PosInf, - 1)"
  by (simp add: example_huge_mesh_def py_getitem_def example_huge_overflow_normal)

lemma example_huge_euclidean:
  "spec_euclidean (10 ^ 20, 0, 0) example_huge_hit <
     spec_euclidean (0, 2 * 10 ^ 20, 0) example_huge_hit"
  "spec_euclidean (0, 2 * 10 ^ 20, 0) example_huge_hit <
     spec_euclidean (0, 0, 3 * 10 ^ 20) example_huge_hit"
  by (simp_all add: spec_euclidean_def example_huge_hit_def)

text \<open>
  Claim C6 as the specification words it fails on the triangle with the vertices
  \<open>(10^20, 0, 0)\<close>, \<open>(0, 2*10^20, 0)\<close>, \<open>(0, 0, 3*10^20)\<close> hit at
  \<open>(6*10^19, 4*10^19, 6*10^19)\<close>: the first vertex of the face has the minimum
  Euclidean distance to the hit point and the last the maximum, every distance computed
  in single precision is \<^verbatim>\<open>inf\<close>, and the sampler returns the colour of the last
  vertex (blue), not that of the first (red).
\<close>

theorem closest_vertex_counterexample:
  "spec_euclidean (10 ^ 20, 0, 0) example_huge_hit <
     spec_euclidean (0, 2 * 10 ^ 20, 0) example_huge_hit \<and>
   spec_euclidean (0, 2 * 10 ^ 20, 0) example_huge_hit <
     spec_euclidean (0, 0, 3 * 10 ^ 20) example_huge_hit \<and>
   mesh_vertices (example_huge_mesh (example_tri_layer ''POINT'')) =
     [(10 ^ 20, 0, 0), (0, 2 * 10 ^ 20, 0), (0, 0, 3 * 10 ^ 20)] \<and>
   overflowing_magnitude (10 ^ 20, 0, 0) example_huge_hit = PosInf \<and>
   overflowing_magnitude (0, 2 * 10 ^ 20, 0) example_huge_hit = PosInf \<and>
   overflowing_magnitude (0, 0, 3 * 10 ^ 20) example_huge_hit = PosInf \<and>
   data (example_tri_layer ''POINT'') ! 0 = \<lparr>red = 1, green = 0, blue = 0, alpha = 1\<rparr> \<and>
   pick_vertex_color_from_rayhit overflowing_magnitude
       (example_huge_mesh (example_tri_layer ''POINT'')) example_huge_hit 0 =
     Inr (Some \<lparr>red = 0, green = 0, blue = 1, alpha = 1\<rparr>)"
proof -
  have vs: "mesh_vertices (example_huge_mesh (example_tri_layer ''POINT'')) =
     [(10 ^ 20, 0, 0), (0, 2 * 10 ^ 20, 0), (0, 0, 3 * 10 ^ 20)]"
    by (simp add: example_huge_mesh_def)
  have first: "data (example_tri_layer ''POINT'') ! 0 = \<lparr>red = 1, green = 0, blue = 0, alpha = 1\<rparr>"
    by (simp add: example_tri_layer_def)
  have pick: "pick_vertex_color_from_rayhit overflowing_magnitude
       (example_huge_mesh (example_tri_layer ''POINT'')) example_huge_hit 0 =
     Inr (Some \<lparr>red = 0, green = 0, blue = 1, alpha = 1\<rparr>)"
    unfolding pick_vertex_color_from_rayhit_def
      example_huge_active example_huge_face option.case sum.case Let_def
    using example_huge_loop [of "example_tri_layer ''POINT''"]
    by (simp add: example_tri_layer_def example_huge_mesh_def py_getitem_def)
  from example_huge_euclidean vs example_huge_overflow first pick show ?thesis
    by (intro conjI)
qed

subsection \<open>The sentinel index (C10)\<close>

text \<open>A face without vertices gives no colour, for every host, mesh and hit point.\<close>

lemma empty_face_none:
  assumes act: "active_color m = Some color_attr"
    and face: "py_getitem (polygons m) hit_face_index = Inr face"
    and empty: "vertices face = []"
  shows "pick_vertex_color_from_rayhit host_magnitude m hit_loc hit_face_index = Inr None"
  unfolding pick_vertex_color_from_rayhit_def using act face empty by simp

text \<open>When some computed distance is finite, the index after the loop is a local index
  of the face.\<close>

lemma finite_distance_genuine_index:
  assumes rng: "\<forall>v\<in>set fv. v < length verts"
    and fin: "\<exists>v\<in>set fv. \<exists>x. hm (verts ! v) hit = Fin x"
  shows "\<exists>b k. closest_loop hm verts hit 0 fv (PosInf, - 1) = Inr (b, int k) \<and> k < length fv"
proof -
  from closest_loop_start [where hm = hm and verts = verts and hit = hit and fv = fv, OF rng fin]
  obtain k where k: "spec_first_least (map (\<lambda>v. hm (verts ! v) hit) fv) k"
    and loop: "closest_loop hm verts hit 0 fv (PosInf, - 1) =
       Inr (map (\<lambda>v. hm (verts ! v) hit) fv ! k, int k)"
    by blast
  from k have "k < length fv" by (simp add: spec_first_least_def)
  with loop show ?thesis by blast
qed

text \<open>When no computed distance is finite, the sentinel \<open>-1\<close> leaves the loop, and on a
  face with vertices the lookups \<^verbatim>\<open>face.vertices[-1]\<close> and \<^verbatim>\<open>face.loop_indices[-1]\<close>
  read the last entry.\<close>

lemma no_finite_distance_sentinel:
  assumes rng: "\<forall>v\<in>set fv. v < length verts"
    and inf: "\<forall>v\<in>set fv. \<forall>x. hm (verts ! v) hit \<noteq> Fin x"
  shows "closest_loop hm verts hit 0 fv (PosInf, - 1) = Inr (PosInf, - 1)"
  using closest_loop_none_finite [where hm = hm and verts = verts and hit = hit and fv = fv]
    rng inf by simp

lemma py_getitem_last: "xs \<noteq> [] \<Longrightarrow> py_getitem xs (- 1) = Inr (last xs)"
  by (cases xs rule: rev_cases) (simp_all add: py_getitem_def nat_diff_distrib')

text \<open>
  Claim C10. On a face without vertices the lookup returns no colour. On the triangle with
  the vertices \<open>(10^20, 0, 0)\<close>, \<open>(0, 2*10^20, 0)\<close>, \<open>(0, 0, 3*10^20)\<close> hit at
  \<open>(6*10^19, 4*10^19, 6*10^19)\<close>, no computed distance is below \<^verbatim>\<open>inf\<close>, the loop
  ends with the index \<open>-1\<close> it started with, \<^verbatim>\<open>face.loop_indices[-1]\<close> reads the last
  loop index of the face, and a colour is returned: the index used for the array access
  is not a local index of the face found by the loop.
\<close>

theorem sentinel_index_reaches_lookup:
  "pick_vertex_color_from_rayhit overflowing_magnitude
       (example_tri_mesh (example_tri_layer ''CORNER'')) (1, 1, 1) 0 = Inr None \<and>
   closest_loop overflowing_magnitude
       (mesh_vertices (example_huge_mesh (example_tri_layer ''CORNER''))) example_huge_hit 0
       [0, 1, 2] (PosInf, - 1) = Inr (PosInf, - 1) \<and>
   py_getitem [0, 1, 2 :: nat] (- 1) = Inr 2 \<and>
   pick_vertex_color_from_rayhit overflowing_magnitude
       (example_huge_mesh (example_tri_layer ''CORNER'')) example_huge_hit 0 =
     Inr (Some \<lparr>red = 0, green = 0, blue = 1, alpha = 1\<rparr>)"
proof -
  have e: "pick_vertex_color_from_rayhit overflowing_magnitude
       (example_tri_mesh (example_tri_layer ''CORNER'')) (1, 1, 1) 0 = Inr None"
    by (rule empty_face_none [OF example_tri_active example_tri_faces(1)]) simp
  have g: "py_getitem [0, 1, 2 :: nat] (- 1) = Inr 2"
    by (simp add: py_getitem_def)
  have pick: "pick_vertex_color_from_rayhit overflowing_magnitude
       (example_huge_mesh (example_tri_layer ''CORNER'')) example_huge_hit 0 =
     Inr (Some \<lparr>red = 0, green = 0, blue = 1, alpha = 1\<rparr>)"
    unfolding pick_vertex_color_from_rayhit_def
      example_huge_active example_huge_face option.case sum.case Let_def
    using example_huge_loop [of "example_tri_layer ''CORNER''"]
    by (simp add: example_tri_layer_def example_huge_mesh_def py_getitem_def)
  from e example_huge_loop g pick show ?thesis
    by (intro conjI)
qed

subsection \<open>Guarded statements of the sampler\<close>

lemma try_pass_host_call:
  "try_pass (host_call f) st = Inr (st\<lparr>host := spec_best_effort f (host st)\<rparr>)"
  by (cases "f (host st)") (simp_all add: try_pass_def host_call_def spec_best_effort_def)

lemma try_pass_host_call2:
  "try_pass (\<lambda>st. host_call (g st) st) st = Inr (st\<lparr>host := spec_best_effort (g st) (host st)\<rparr>)"
  by (cases "g st (host st)") (simp_all add: try_pass_def host_call_def spec_best_effort_def)

lemma then_do_Inr: "then_do (Inr st) f = f st"
  by (simp add: then_do_def)

lemma try_pass_timer:
  "try_pass (\<lambda>st.
      then_do (case sample_vertex_color_timer st of
                 None \<Rightarrow> Inr st
               | Some t \<Rightarrow> host_call (event_timer_remove api t) st)
        (\<lambda>st. Inr (st\<lparr>sample_vertex_color_timer := None\<rparr>))) st =
   Inr (st\<lparr>host := (case sample_vertex_color_timer st of
                        None \<Rightarrow> host st
                      | Some t \<Rightarrow> spec_best_effort (event_timer_remove api t) (host st)),
           sample_vertex_color_timer :=
             (case sample_vertex_color_timer st of
                None \<Rightarrow> None
              | Some t \<Rightarrow> (case event_timer_remove api t (host st) of
                            Inl e \<Rightarrow> Some t | Inr h \<Rightarrow> None))\<rparr>)"
proof (cases "sample_vertex_color_timer st")
  case None
  then show ?thesis by (simp add: try_pass_def then_do_def)
next
  case (Some t)
  then show ?thesis
    by (cases "event_timer_remove api t (host st)")
      (simp_all add: try_pass_def then_do_def host_call_def spec_best_effort_def)
qed

lemma sample_vertex_color_end_eq:
  "sample_vertex_color_end api st =
     Inr (st\<lparr>host :=
              spec_best_effort (status_text_set api None)
                (spec_best_effort (set_show_brush api (prev_show_brush st))
                   (case sample_vertex_color_timer st of
                      None \<Rightarrow>
                        spec_best_effort (header_text_set api None)
                          (spec_best_effort (cursor_modal_restore api) (host st))
                    | Some t \<Rightarrow>
                        spec_best_effort (event_timer_remove api t)
                          (spec_best_effort (header_text_set api None)
                             (spec_best_effort (cursor_modal_restore api) (host st))))),
            sample_vertex_color_timer :=
              (case sample_vertex_color_timer st of
                 None \<Rightarrow> None
               | Some t \<Rightarrow>
                   (case event_timer_remove api t
                           (spec_best_effort (header_text_set api None)
                              (spec_best_effort (cursor_modal_restore api) (host st))) of
                      Inl e \<Rightarrow> Some t
                    | Inr h \<Rightarrow> None))\<rparr>)"
  unfolding sample_vertex_color_end_def
  by (simp add: try_pass_host_call try_pass_host_call2 try_pass_timer then_do_Inr
      split: option.splits)

lemma modal_failure:
  assumes tick: "first_modal st \<or> ev_type event = ''TIMER'' \<or>
         (ev_type event = ''LEFTMOUSE'' \<and> ev_value event = ''PRESS'')"
    and fail: "do_sample api event (st\<lparr>first_modal := False\<rparr>) = Inl (e, st1)"
  shows "\<exists>st2. sample_vertex_color_end api st1 = Inr st2 \<and> modal api event st = Inl (e, st2)"
proof -
  from sample_vertex_color_end_eq [of api st1] obtain st2
    where st2: "sample_vertex_color_end api st1 = Inr st2" by blast
  have "modal api event st = Inl (e, st2)"
    unfolding modal_def using tick fail st2 by (simp add: Let_def)
  with st2 show ?thesis by blast
qed

subsection \<open>Cleanup when sampling fails (C9)\<close>

text \<open>
  Claim C9. Whatever the host's calls do, the cleanup routine completes without raising:
  cursor restore, header clear, timer removal (when a timer is recorded), brush-visibility
  restore and status clear are each attempted in this order on the state the steps before
  left, each taking effect when its call succeeds and leaving the state alone when it
  raises (the recorded timer is then kept), so no step keeps a later one from running.
  If the sampling step of a tick of the modal handler raises an error, the handler runs
  this cleanup on the state at the failure and only then lets the same error out.
\<close>

theorem cleanup_before_failure:
  "sample_vertex_color_end api st =
     Inr (st\<lparr>host :=
              spec_best_effort (status_text_set api None)
                (spec_best_effort (set_show_brush api (prev_show_brush st))
                   (case sample_vertex_color_timer st of
                      None \<Rightarrow>
                        spec_best_effort (header_text_set api None)
                          (spec_best_effort (cursor_modal_restore api) (host st))
                    | Some t \<Rightarrow>
                        spec_best_effort (event_timer_remove api t)
                          (spec_best_effort (header_text_set api None)
                             (spec_best_effort (cursor_modal_restore api) (host st))))),
            sample_vertex_color_timer :=
              (case sample_vertex_color_timer st of
                 None \<Rightarrow> None
               | Some t \<Rightarrow>
                   (case event_timer_remove api t
                           (spec_best_effort (header_text_set api None)
                              (spec_best_effort (cursor_modal_restore api) (host st))) of
                      Inl e \<Rightarrow> Some t
                    | Inr h \<Rightarrow> None))\<rparr>) \<and>
   ((first_modal st \<or> ev_type event = ''TIMER'' \<or>
       (ev_type event = ''LEFTMOUSE'' \<and> ev_value event = ''PRESS'')) \<and>
    do_sample api event (st\<lparr>first_modal := False\<rparr>) = Inl (e, st1) \<longrightarrow>
      (\<exists>st2. sample_vertex_color_end api st1 = Inr st2 \<and> modal api event st = Inl (e, st2)))"
  using sample_vertex_color_end_eq [of api st] modal_failure [of st event api e st1]
  by blast

lemma example_tri_loop:
  "closest_loop exact_magnitude (mesh_vertices (example_tri_mesh l)) (1, 1, 1) 0 [1, 0, 2]
     (PosInf, - 1) = Inr (Fin (1/2), 1)"
  by (simp add: example_tri_mesh_def py_getitem_def exact_magnitude_def example_tri_euclidean
      example_tri_euclidean_normal)

lemma example_pick_unknown_domain:
  "pick_vertex_color_from_rayhit exact_magnitude (example_tri_mesh (example_tri_layer ''FACE''))
       (1, 1, 1) 1 =
     Inl (Exception (''Unknown domain '' @ apostrophe @ ''FACE'' @ apostrophe @
            '' on active color attribute.''))"
proof -
  have dom: "domain (example_tri_layer ''FACE'') = ''FACE''"
    by (simp add: example_tri_layer_def)
  show ?thesis
    unfolding pick_vertex_color_from_rayhit_def
      example_tri_active example_tri_faces(2) option.case sum.case Let_def
    using example_tri_loop [of "example_tri_layer ''FACE''"] dom
    by (simp del: One_nat_def)
qed

theorem cleanup_before_failure_witness:
  "ev_type (example_event ''TIMER'') = ''TIMER'' \<and>
   do_sample (example_api ''FACE'') (example_event ''TIMER'')
       (example_sampler\<lparr>first_modal := False\<rparr>) =
     Inl (Exception (''Unknown domain '' @ apostrophe @ ''FACE'' @ apostrophe @
            '' on active color attribute.''), example_sampler\<lparr>first_modal := False\<rparr>) \<and>
   sample_vertex_color_end (example_api ''FACE'') example_sampler =
     Inr (example_sampler\<lparr>host := [], sample_vertex_color_timer := None\<rparr>) \<and>
   modal (example_api ''FACE'') (example_event ''TIMER'') example_sampler =
     Inl (Exception (''Unknown domain '' @ apostrophe @ ''FACE'' @ apostrophe @
            '' on active color attribute.''),
          example_sampler\<lparr>host := [], sample_vertex_color_timer := None\<rparr>)"
proof -
  let ?e = "Exception (''Unknown domain '' @ apostrophe @ ''FACE'' @ apostrophe @
            '' on active color attribute.'')"
  have t: "ev_type (example_event ''TIMER'') = ''TIMER''"
    by (simp add: example_event_def)
  have d: "do_sample (example_api ''FACE'') (example_event ''TIMER'')
       (example_sampler\<lparr>first_modal := False\<rparr>) = Inl (?e, example_sampler\<lparr>first_modal := False\<rparr>)"
    unfolding do_sample_def
    by (simp add: example_api_def pick_vertex_color_from_mouse_coord_def
        example_pick_unknown_domain)
  have c: "sample_vertex_color_end (example_api ''FACE'') st =
      Inr (st\<lparr>host := [], sample_vertex_color_timer := None\<rparr>)"
    if "host st = [7]" "sample_vertex_color_timer st = Some 7" for st :: "(nat list) sampler"
    using cleanup_before_failure [of "example_api ''FACE''" st] that
    by (simp add: example_api_def spec_best_effort_def)
  have c0: "sample_vertex_color_end (example_api ''FACE'') example_sampler =
      Inr (example_sampler\<lparr>host := [], sample_vertex_color_timer := None\<rparr>)"
    by (rule c) (simp_all add: example_sampler_def)
  have c1: "sample_vertex_color_end (example_api ''FACE'') (example_sampler\<lparr>first_modal := False\<rparr>) =
      Inr (example_sampler\<lparr>first_modal := False, host := [], sample_vertex_color_timer := None\<rparr>)"
    using c [of "example_sampler\<lparr>first_modal := False\<rparr>"] by (simp add: example_sampler_def)
  from cleanup_before_failure
    [of "example_api ''FACE''" example_sampler "example_event ''TIMER''" ?e
      "example_sampler\<lparr>first_modal := False\<rparr>"] t d c1
  have m: "modal (example_api ''FACE'') (example_event ''TIMER'') example_sampler =
     Inl (?e, example_sampler\<lparr>host := [], sample_vertex_color_timer := None\<rparr>)"
    by (auto simp: example_sampler_def)
  from t d c0 m show ?thesis by (intro conjI)
qed

subsection \<open>Digits, rounding and the two formats\<close>

lemma digit_mem: "k < 10 \<Longrightarrow> ''0123456789'' ! k \<in> set ''0123456789''"
  by (rule nth_mem) simp

lemma hexdigit_mem: "k < 16 \<Longrightarrow> ''0123456789ABCDEF'' ! k \<in> set ''0123456789ABCDEF''"
  by (rule nth_mem) simp

lemma str_nat_digits: "set (str_nat n) \<subseteq> set ''0123456789''"
proof (induction n rule: str_nat.induct)
  case (1 n)
  show ?case
  proof (cases "n < 10")
    case True
    then show ?thesis using digit_mem [of n] by (subst str_nat.simps) simp
  next
    case False
    have "n mod 10 < 10" by simp
    from digit_mem [OF this] "1.IH" [OF False] False show ?thesis
      by (subst str_nat.simps) simp
  qed
qed

lemma str_nat_no_point: "CHR ''.'' \<notin> set (str_nat n)"
  using str_nat_digits [of n] by auto

lemma str_int_no_point: "CHR ''.'' \<notin> set (str_int i)"
  using str_nat_no_point by (simp add: str_int_def)

lemma format_3f_shape:
  "\<exists>pre frac. format_3f f = pre @ ''.'' @ frac \<and> CHR ''.'' \<notin> set pre \<and>
     length frac = 3 \<and> set frac \<subseteq> set ''0123456789''"
proof -
  let ?n = "nat (py_round (\<bar>f\<bar> * 1000))"
  let ?pre = "(if f < 0 then ''-'' else '''') @ str_nat (?n div 1000)"
  let ?frac = "[''0123456789'' ! (?n mod 1000 div 100), ''0123456789'' ! (?n mod 100 div 10),
       ''0123456789'' ! (?n mod 10)]"
  have "?n mod 1000 div 100 < 10" "?n mod 100 div 10 < 10" "?n mod 10 < 10"
    by (simp_all add: less_mult_imp_div_less)
  then have "set ?frac \<subseteq> set ''0123456789''"
    using digit_mem by (metis (no_types, lifting) empty_subsetI insert_subset list.simps(15) set_empty)
  moreover have "CHR ''.'' \<notin> set ?pre"
    using str_nat_no_point by simp
  moreover have "format_3f f = ?pre @ ''.'' @ ?frac"
    by (simp add: format_3f_def Let_def)
  ultimately show ?thesis
    by (intro exI [of _ ?pre] exI [of _ ?frac]) simp
qed

lemma f2s_shape:
  "(is_integer f \<longrightarrow> f2s f = str_int \<lfloor>f\<rfloor> \<and> CHR ''.'' \<notin> set (f2s f)) \<and>
   (\<not> is_integer f \<longrightarrow>
      (\<exists>pre frac. f2s f = pre @ ''.'' @ frac \<and> CHR ''.'' \<notin> set pre \<and>
         length frac = 3 \<and> set frac \<subseteq> set ''0123456789''))"
proof (cases "is_integer f")
  case True
  then have "of_int \<lfloor>f\<rfloor> = f" by (simp add: is_integer_def)
  then have "\<lceil>f\<rceil> = \<lfloor>f\<rfloor>" by (metis ceiling_of_int)
  then have "py_int f = \<lfloor>f\<rfloor>" by (simp add: py_int_def)
  with True show ?thesis using str_int_no_point by (simp add: f2s_def)
next
  case False
  then show ?thesis using format_3f_shape [of f] by (simp add: f2s_def)
qed

lemma py_round_range:
  assumes "0 \<le> x" "x \<le> of_int N"
  shows "0 \<le> py_round x \<and> py_round x \<le> N"
proof -
  have f0: "0 \<le> \<lfloor>x\<rfloor>" using assms(1) by simp
  have fN: "\<lfloor>x\<rfloor> \<le> N" using assms(2) by (simp add: floor_le_iff)
  have step: "\<lfloor>x\<rfloor> + 1 \<le> N" if "1/2 \<le> x - of_int \<lfloor>x\<rfloor>"
  proof -
    from that assms(2) have "of_int \<lfloor>x\<rfloor> < (of_int N :: real)" by linarith
    then have "\<lfloor>x\<rfloor> < N" by simp
    then show ?thesis by simp
  qed
  show ?thesis
    unfolding py_round_def Let_def using f0 fN step by auto
qed

lemma py_round_255:
  assumes "0 \<le> c" "c \<le> 1"
  shows "0 \<le> py_round (c * 255) \<and> py_round (c * 255) \<le> 255"
  using py_round_range [of "c * 255" 255] assms by simp

lemma hex_nat_small: "n < 16 \<Longrightarrow> hex_nat n = [''0123456789ABCDEF'' ! n]"
  by (subst hex_nat.simps) simp

lemma hex_nat_two:
  assumes "16 \<le> n" "n < 256"
  shows "hex_nat n = [''0123456789ABCDEF'' ! (n div 16), ''0123456789ABCDEF'' ! (n mod 16)]"
proof -
  from assms(2) have "n div 16 < 16" by simp
  from hex_nat_small [OF this] assms(1) show ?thesis
    by (subst hex_nat.simps) simp
qed

lemma format_02X_byte:
  assumes "0 \<le> n" "n \<le> 255"
  shows "format_02X n =
      [''0123456789ABCDEF'' ! (nat n div 16), ''0123456789ABCDEF'' ! (nat n mod 16)]"
proof (cases "nat n < 16")
  case True
  then show ?thesis using assms by (simp add: format_02X_def hex_nat_small)
next
  case False
  with assms have "16 \<le> nat n" "nat n < 256" by simp_all
  from hex_nat_two [OF this] assms show ?thesis by (simp add: format_02X_def)
qed

lemma format_02X_byte_shape:
  assumes "0 \<le> n" "n \<le> 255"
  shows "length (format_02X n) = 2 \<and> set (format_02X n) \<subseteq> set ''0123456789ABCDEF''"
proof -
  from assms have "nat n div 16 < 16" "nat n mod 16 < 16" by simp_all
  from this [THEN hexdigit_mem] show ?thesis
    unfolding format_02X_byte [OF assms] by simp
qed

lemma col_to_hex_rgba:
  "col_to_hex [r, g, b, a] =
     Inr (''#'' @ format_02X (py_round (r * 255)) @ format_02X (py_round (g * 255)) @
          format_02X (py_round (b * 255)) @
          (if py_round (a * 255) \<noteq> 255 then format_02X (py_round (a * 255)) else []))"
  by (simp add: col_to_hex_def Let_def)

lemma report_line_eq:
  assumes "col_to_hex col_lin = Inr h1" "col_to_hex col_srgb = Inr h2"
  shows "report_line col_lin col_srgb =
     Inr (if join '', '' (map f2s col_lin) = join '', '' (map f2s col_srgb)
          then ''Color is  '' @ h1 @ '' ('' @ join '', '' (map f2s col_lin) @ '')''
          else ''Linear color is  '' @ h1 @ '' ('' @ join '', '' (map f2s col_lin) @
               '')  |  SRGB color is '' @ h2 @ '' ('' @ join '', '' (map f2s col_srgb) @ '')'')"
  using assms by (simp add: report_line_def Let_def)

subsection \<open>The report of a sampled colour (C7)\<close>

text \<open>
  Claim C7. For every colour with components in the interval from 0 to 1, the numeric
  formatting prints a component that is an integer as that integer, without a decimal
  point, and any other component with a point followed by exactly three decimal digits;
  each component times 255 rounds to an integer from 0 to 255 that prints as exactly two
  upper-case hexadecimal digits, and the hex string is \<open>#\<close> followed by the digits of
  red, green and blue, and by those of alpha exactly when the rounded alpha is not 255.
  The report is the single combined line when the decimal strings of the linear and of the
  display colour are identical, and the two labelled parts otherwise.
\<close>

theorem color_formatting:
  assumes lin: "\<forall>x\<in>set (color_list c). 0 \<le> x \<and> x \<le> 1"
  shows "(\<forall>f\<in>set (color_list c).
       (is_integer f \<longrightarrow> f2s f = str_int \<lfloor>f\<rfloor> \<and> CHR ''.'' \<notin> set (f2s f)) \<and>
       (\<not> is_integer f \<longrightarrow>
          (\<exists>pre frac. f2s f = pre @ ''.'' @ frac \<and> CHR ''.'' \<notin> set pre \<and>
             length frac = 3 \<and> set frac \<subseteq> set ''0123456789''))) \<and>
     (\<forall>x\<in>set (color_list c).
        0 \<le> py_round (x * 255) \<and> py_round (x * 255) \<le> 255 \<and>
        length (format_02X (py_round (x * 255))) = 2 \<and>
        set (format_02X (py_round (x * 255))) \<subseteq> set ''0123456789ABCDEF'') \<and>
     col_to_hex (color_list c) =
       Inr (''#'' @ format_02X (py_round (red c * 255)) @ format_02X (py_round (green c * 255)) @
            format_02X (py_round (blue c * 255)) @
            (if py_round (alpha c * 255) \<noteq> 255 then format_02X (py_round (alpha c * 255))
             else [])) \<and>
     (\<exists>h1 h2. col_to_hex (color_list c) = Inr h1 \<and> col_to_hex (color_list c') = Inr h2 \<and>
        report_line (color_list c) (color_list c') =
          Inr (if join '', '' (map f2s (color_list c)) = join '', '' (map f2s (color_list c'))
               then ''Color is  '' @ h1 @ '' ('' @ join '', '' (map f2s (color_list c)) @ '')''
               else ''Linear color is  '' @ h1 @ '' ('' @ join '', '' (map f2s (color_list c)) @
                    '')  |  SRGB color is '' @ h2 @ '' ('' @
                    join '', '' (map f2s (color_list c')) @ '')''))"
proof -
  have p1: "\<forall>f\<in>set (color_list c).
       (is_integer f \<longrightarrow> f2s f = str_int \<lfloor>f\<rfloor> \<and> CHR ''.'' \<notin> set (f2s f)) \<and>
       (\<not> is_integer f \<longrightarrow>
          (\<exists>pre frac. f2s f = pre @ ''.'' @ frac \<and> CHR ''.'' \<notin> set pre \<and>
             length frac = 3 \<and> set frac \<subseteq> set ''0123456789''))"
    using f2s_shape by blast
  have p2: "\<forall>x\<in>set (color_list c).
        0 \<le> py_round (x * 255) \<and> py_round (x * 255) \<le> 255 \<and>
        length (format_02X (py_round (x * 255))) = 2 \<and>
        set (format_02X (py_round (x * 255))) \<subseteq> set ''0123456789ABCDEF''"
  proof
    fix x assume "x \<in> set (color_list c)"
    with lin have "0 \<le> x" "x \<le> 1" by simp_all
    from py_round_255 [OF this] have r: "0 \<le> py_round (x * 255)" "py_round (x * 255) \<le> 255"
      by simp_all
    from r format_02X_byte_shape [OF r]
    show "0 \<le> py_round (x * 255) \<and> py_round (x * 255) \<le> 255 \<and>
        length (format_02X (py_round (x * 255))) = 2 \<and>
        set (format_02X (py_round (x * 255))) \<subseteq> set ''0123456789ABCDEF''"
      by simp
  qed
  have p3: "col_to_hex (color_list c) =
       Inr (''#'' @ format_02X (py_round (red c * 255)) @ format_02X (py_round (green c * 255)) @
            format_02X (py_round (blue c * 255)) @
            (if py_round (alpha c * 255) \<noteq> 255 then format_02X (py_round (alpha c * 255))
             else []))"
    unfolding color_list_def by (rule col_to_hex_rgba)
  obtain h1 where h1: "col_to_hex (color_list c) = Inr h1"
    unfolding color_list_def col_to_hex_rgba by blast
  obtain h2 where h2: "col_to_hex (color_list c') = Inr h2"
    unfolding color_list_def col_to_hex_rgba by blast
  from h1 h2 report_line_eq [OF h1 h2]
  have p4: "\<exists>h1 h2. col_to_hex (color_list c) = Inr h1 \<and> col_to_hex (color_list c') = Inr h2 \<and>
        report_line (color_list c) (color_list c') =
          Inr (if join '', '' (map f2s (color_list c)) = join '', '' (map f2s (color_list c'))
               then ''Color is  '' @ h1 @ '' ('' @ join '', '' (map f2s (color_list c)) @ '')''
               else ''Linear color is  '' @ h1 @ '' ('' @ join '', '' (map f2s (color_list c)) @
                    '')  |  SRGB color is '' @ h2 @ '' ('' @
                    join '', '' (map f2s (color_list c')) @ '')'')"
    by blast
  from p1 p2 p3 p4 show ?thesis by (intro conjI)
qed

lemma f2s_examples:
  "f2s 0 = ''0''" "f2s 1 = ''1''" "f2s (1/2) = ''0.500''" "f2s (3/4) = ''0.750''"
  by (simp_all add: f2s_def is_integer_def py_int_def str_int_def str_nat.simps
      format_3f_def py_round_def)

lemma py_round_examples:
  "py_round 255 = 255" "py_round 0 = 0" "py_round (255/2) = 128" "py_round (765/4) = 191"
  by (simp_all add: py_round_def)

lemma format_02X_examples:
  "format_02X 255 = ''FF''" "format_02X 0 = ''00''" "format_02X 128 = ''80''"
  "format_02X 191 = ''BF''"
  by (simp_all add: format_02X_def hex_nat.simps)

lemma col_to_hex_examples:
  "col_to_hex (color_list \<lparr>red = 1, green = 0, blue = 0, alpha = 1/2\<rparr>) = Inr ''#FF000080''"
  "col_to_hex (color_list \<lparr>red = 1, green = 0, blue = 0, alpha = 3/4\<rparr>) = Inr ''#FF0000BF''"
  "col_to_hex (color_list \<lparr>red = 1, green = 1, blue = 1, alpha = 1\<rparr>) = Inr ''#FFFFFF''"
  by (simp_all add: color_list_def col_to_hex_rgba py_round_examples format_02X_examples)

lemma join_examples:
  "join '', '' (map f2s (color_list \<lparr>red = 1, green = 0, blue = 0, alpha = 1/2\<rparr>)) = ''1, 0, 0, 0.500''"
  "join '', '' (map f2s (color_list \<lparr>red = 1, green = 0, blue = 0, alpha = 3/4\<rparr>)) = ''1, 0, 0, 0.750''"
  "join '', '' (map f2s (color_list \<lparr>red = 1, green = 1, blue = 1, alpha = 1\<rparr>)) = ''1, 1, 1, 1''"
  by (simp_all add: color_list_def f2s_examples)

theorem color_formatting_witness:
  "color_list \<lparr>red = 1, green = 0, blue = 0, alpha = 1/2\<rparr> = [1, 0, 0, 1/2] \<and>
   is_integer 1 \<and> f2s 1 = ''1'' \<and> \<not> is_integer (1/2) \<and> f2s (1/2) = ''0.500'' \<and>
   col_to_hex (color_list \<lparr>red = 1, green = 0, blue = 0, alpha = 1/2\<rparr>) = Inr ''#FF000080'' \<and>
   col_to_hex (color_list \<lparr>red = 1, green = 1, blue = 1, alpha = 1\<rparr>) = Inr ''#FFFFFF'' \<and>
   report_line (color_list \<lparr>red = 1, green = 0, blue = 0, alpha = 1/2\<rparr>)
       (color_list \<lparr>red = 1, green = 0, blue = 0, alpha = 3/4\<rparr>) =
     Inr ''Linear color is  #FF000080 (1, 0, 0, 0.500)  |  SRGB color is #FF0000BF (1, 0, 0, 0.750)'' \<and>
   report_line (color_list \<lparr>red = 1, green = 1, blue = 1, alpha = 1\<rparr>)
       (color_list \<lparr>red = 1, green = 1, blue = 1, alpha = 1\<rparr>) =
     Inr ''Color is  #FFFFFF (1, 1, 1, 1)''"
proof -
  let ?c = "\<lparr>red = 1, green = 0, blue = 0, alpha = 1/2\<rparr>"
  let ?c' = "\<lparr>red = 1, green = 0, blue = 0, alpha = 3/4\<rparr>"
  let ?w = "\<lparr>red = 1, green = 1, blue = 1, alpha = 1\<rparr>"
  have h: "\<forall>x\<in>set (color_list ?c). 0 \<le> x \<and> x \<le> 1"
    by (simp add: color_list_def)
  have hw: "\<forall>x\<in>set (color_list ?w). 0 \<le> x \<and> x \<le> 1"
    by (simp add: color_list_def)
  have i: "is_integer 1" "\<not> is_integer (1/2)"
    by (simp_all add: is_integer_def)
  from color_formatting [OF h, of ?c'] col_to_hex_examples join_examples
  have r1: "report_line (color_list ?c) (color_list ?c') =
     Inr ''Linear color is  #FF000080 (1, 0, 0, 0.500)  |  SRGB color is #FF0000BF (1, 0, 0, 0.750)''"
    by auto
  from color_formatting [OF hw, of ?w] col_to_hex_examples join_examples
  have r2: "report_line (color_list ?w) (color_list ?w) = Inr ''Color is  #FFFFFF (1, 1, 1, 1)''"
    by auto
  have l: "color_list ?c = [1, 0, 0, 1/2]"
    by (simp add: color_list_def)
  from l i f2s_examples(2,3) col_to_hex_examples(1,3) r1 r2 show ?thesis
    by (intro conjI)
qed

end
